theory Spec2Isabelle
  imports Complex_Main "HOL-Library.AList"
begin

section \<open>Strings\<close>

text \<open>
  Python strings are modelled as lists of characters. The string methods of
  \<^verbatim>\<open>utils.py\<close> are modelled on ASCII: a character outside ASCII is neither a
  letter nor a digit here. \<^verbatim>\<open>_normalize_to_identifier\<close> first replaces every
  character outside \<^verbatim>\<open>[a-zA-Z0-9_]\<close> by an underscore and then collapses
  runs of underscores, so its result does not depend on how a character outside ASCII
  is represented.
\<close>

definition ascii_lowercase :: string where
  "ascii_lowercase = ''abcdefghijklmnopqrstuvwxyz''"

definition ascii_uppercase :: string where
  "ascii_uppercase = ''ABCDEFGHIJKLMNOPQRSTUVWXYZ''"

definition digits :: string where
  "digits = ''0123456789''"

definition isdigit :: "char \<Rightarrow> bool" where
  "isdigit c = (c \<in> set digits)"

definition isalpha :: "char \<Rightarrow> bool" where
  "isalpha c = (c \<in> set ascii_lowercase \<or> c \<in> set ascii_uppercase)"

text \<open>The character class \<^verbatim>\<open>[a-zA-Z0-9_]\<close> of the regular expression.\<close>

definition is_word_char :: "char \<Rightarrow> bool" where
  "is_word_char c = (isalpha c \<or> isdigit c \<or> c = CHR ''_'')"

text \<open>\<^verbatim>\<open>str.isidentifier()\<close>: not empty, no digit in front, word characters only.\<close>

definition isidentifier :: "string \<Rightarrow> bool" where
  "isidentifier s =
     (case s of [] \<Rightarrow> False
      | c # cs \<Rightarrow> (isalpha c \<or> c = CHR ''_'') \<and> list_all is_word_char cs)"

definition lower_char :: "char \<Rightarrow> char" where
  "lower_char c =
     (case map_of (zip ascii_uppercase ascii_lowercase) c of
        None \<Rightarrow> c
      | Some l \<Rightarrow> l)"

definition lower :: "string \<Rightarrow> string" where
  "lower s = map lower_char s"

text \<open>\<^verbatim>\<open>s.startswith(p)\<close>.\<close>

definition startswith :: "string \<Rightarrow> string \<Rightarrow> bool" where
  "startswith p s = (take (length p) s = p)"

text \<open>\<^verbatim>\<open>re.sub(r"[^a-zA-Z0-9_]", "_", s)\<close>.\<close>

definition sub_non_word :: "string \<Rightarrow> string" where
  "sub_non_word s = map (\<lambda>c. if is_word_char c then c else CHR ''_'') s"

text \<open>\<^verbatim>\<open>re.sub(r"_+", "_", s)\<close>: every run of underscores becomes one underscore.\<close>

fun sub_underscores :: "string \<Rightarrow> string" where
  "sub_underscores [] = []"
| "sub_underscores [c] = [c]"
| "sub_underscores (c # d # s) =
     (if c = CHR ''_'' \<and> d = CHR ''_'' then sub_underscores (d # s)
      else c # sub_underscores (d # s))"

text \<open>\<^verbatim>\<open>s.strip("_")\<close>.\<close>

definition strip_underscores :: "string \<Rightarrow> string" where
  "strip_underscores s =
     rev (dropWhile (\<lambda>c. c = CHR ''_'') (rev (dropWhile (\<lambda>c. c = CHR ''_'') s)))"

text \<open>\<^verbatim>\<open>_normalize_to_identifier\<close>, statement by statement.\<close>

definition normalize_to_identifier :: "string \<Rightarrow> string" where
  "normalize_to_identifier s =
     (if s = [] then ''_''
      else
        let s1 = sub_non_word s;
            s2 = (if isdigit (hd s1) then CHR ''_'' # s1 else s1);
            s3 = sub_underscores s2;
            s4 = strip_underscores s3;
            s5 = (if s4 = [] then ''_'' else s4)
        in lower s5)"

section \<open>Paths\<close>

text \<open>
  A \<^verbatim>\<open>pathlib.Path\<close> on a POSIX system: whether it is absolute, and its
  components. \<^verbatim>\<open>Path(s)\<close> splits at the slashes and drops empty and
  \<^verbatim>\<open>.\<close> components; joining with an absolute right operand gives the right
  operand. (The root of exactly two slashes, which pathlib keeps apart, is not told from
  the root of one.)
\<close>

datatype path = Path (is_absolute: bool) (parts: "string list")

text \<open>\<^verbatim>\<open>s.split("/")\<close>.\<close>

fun split_slash :: "string \<Rightarrow> string list" where
  "split_slash [] = [[]]"
| "split_slash (c # s) =
     (if c = CHR ''/'' then [] # split_slash s
      else (case split_slash s of
              [] \<Rightarrow> [[c]]
            | w # ws \<Rightarrow> (c # w) # ws))"

definition path_of_string :: "string \<Rightarrow> path" where
  "path_of_string s =
     Path (startswith ''/'' s) (filter (\<lambda>w. w \<noteq> [] \<and> w \<noteq> ''.'') (split_slash s))"

text \<open>The operator \<^verbatim>\<open>/\<close> of pathlib, with a string on the right.\<close>

definition joinpath :: "path \<Rightarrow> string \<Rightarrow> path" where
  "joinpath p s =
     (if startswith ''/'' s then path_of_string s
      else Path (is_absolute p) (parts p @ parts (path_of_string s)))"

fun join_slash :: "string list \<Rightarrow> string" where
  "join_slash [] = []"
| "join_slash [w] = w"
| "join_slash (w # v # ws) = w @ ''/'' @ join_slash (v # ws)"

definition as_posix :: "path \<Rightarrow> string" where
  "as_posix p =
     (if parts p = [] then (if is_absolute p then ''/'' else ''.'')
      else (if is_absolute p then ''/'' else []) @ join_slash (parts p))"

definition parent :: "path \<Rightarrow> path" where
  "parent p = Path (is_absolute p) (butlast (parts p))"

section \<open>Values, nodes and workflow documents\<close>

text \<open>
  The values of a decoded JSON document, and \<^verbatim>\<open>Path\<close> objects, which a caller
  may pass to \<^verbatim>\<open>populate_workflow\<close>. A dictionary keeps its insertion order: it is
  an association list.
\<close>

datatype pyval =
    PyNone
  | PyBool bool
  | PyInt int
  | PyFloat real
  | PyStr string
  | PyList "pyval list"
  | PyDict "(string \<times> pyval) list"
  | PyPath path

text \<open>
  The exceptions the code raises. \<open>FormatError\<close> is the \<^verbatim>\<open>ValueError\<close> carrying
  \<^verbatim>\<open>API_WORKFLOW_MESSAGE\<close>, \<open>UnsupportedNodeError\<close> the one for an unsupported class
  type, \<open>InvalidNodeError\<close> and \<open>InvalidOutputTypeError\<close> the ones of
  \<^verbatim>\<open>populate_workflow\<close> and \<^verbatim>\<open>retrieve_workflow_outputs\<close>, and
  \<open>LinkConflictError\<close> the \<^verbatim>\<open>RuntimeError\<close> of \<^verbatim>\<open>create_model_symlink\<close>.
  The others are the built-in exceptions of the same name.
\<close>

datatype error =
    FormatError
  | UnsupportedNodeError string
  | InvalidNodeError string
  | InvalidOutputTypeError string
  | LinkConflictError path
  | KeyError string
  | TypeError
  | AttributeError
  | StopIteration
  | FileExistsError path
  | NotADirectoryError path
  | IsADirectoryError path
  | FileNotFoundError path
  | OSError path
  | EOFError

text \<open>
  A node of the graph: \<^verbatim>\<open>node["class_type"]\<close>, \<^verbatim>\<open>node["inputs"]\<close>,
  \<^verbatim>\<open>node["_meta"]["title"]\<close> (\<open>None\<close> when the key is missing),
  \<^verbatim>\<open>node["_meta"].get("options")\<close>, and \<^verbatim>\<open>node["id"]\<close>, which parsing
  assigns (\<open>None\<close> before).
\<close>

record node =
  class_type :: string
  inputs :: "(string \<times> pyval) list"
  title :: "string option"
  options :: "pyval option"
  node_id :: "string option"

text \<open>
  A top-level value of the document is a node, or some other value (the ordinary, non-API
  export has top-level keys such as \<^verbatim>\<open>last_node_id\<close> whose values are numbers and
  lists). The document is a dictionary from key to entry, in insertion order.
\<close>

datatype entry = Node node | Other pyval

type_synonym workflow = "(string \<times> entry) list"

definition CPACK_OUTPUT_NODES :: "string list" where
  "CPACK_OUTPUT_NODES = [''CPackOutputFile'', ''CPackOutputImage'']"

definition CPACK_PATH_INPUT_NODES :: "string list" where
  "CPACK_PATH_INPUT_NODES = [''CPackInputFile'', ''CPackInputImage'']"

text \<open>
  \<^verbatim>\<open>d[k] = v\<close> on a dictionary: the value of an existing key is replaced in place, a
  new key is appended.
\<close>

fun dict_set :: "'k \<Rightarrow> 'v \<Rightarrow> ('k \<times> 'v) list \<Rightarrow> ('k \<times> 'v) list" where
  "dict_set k v [] = [(k, v)]"
| "dict_set k v ((k', v') # d) =
     (if k' = k then (k, v) # d else (k', v') # dict_set k v d)"

definition get_node_value :: "node \<Rightarrow> error + pyval" where
  "get_node_value n = (case inputs n of [] \<Rightarrow> Inl StopIteration | (k, v) # d \<Rightarrow> Inr v)"

definition set_node_value :: "node \<Rightarrow> pyval \<Rightarrow> error + node" where
  "set_node_value n v =
     (case inputs n of
        [] \<Rightarrow> Inl StopIteration
      | (key, old) # d \<Rightarrow>
          Inr (n\<lparr>inputs := (key, (case v of PyPath p \<Rightarrow> PyStr (as_posix p) | _ \<Rightarrow> v)) # d\<rparr>))"

section \<open>The workflow parser\<close>

text \<open>
  The dictionary \<^verbatim>\<open>dep_map\<close> has the tuples \<^verbatim>\<open>tuple(v)\<close> of the links as keys.
  Python compares the keys of a dictionary with \<^verbatim>\<open>==\<close>, under which \<^verbatim>\<open>0\<close>,
  \<^verbatim>\<open>0.0\<close> and \<^verbatim>\<open>False\<close> are one key: \<open>dict_key\<close> gives every hashable value
  its representative. A list or a dictionary is not hashable, and a tuple holding one is
  not either. The value stored is the consumer (its key in the document stands for the node
  object) and the name of the consuming input.
\<close>

fun hashable :: "pyval \<Rightarrow> bool" where
  "hashable (PyList xs) = False"
| "hashable (PyDict d) = False"
| "hashable v = True"

fun dict_key :: "pyval \<Rightarrow> pyval" where
  "dict_key (PyBool b) = PyInt (if b then 1 else 0)"
| "dict_key (PyFloat r) = (if r = of_int \<lfloor>r\<rfloor> then PyInt \<lfloor>r\<rfloor> else PyFloat r)"
| "dict_key v = v"

type_synonym dep_map = "pyval \<times> pyval \<Rightarrow> (string \<times> string) option"

text \<open>The inner loop of the first pass, over the inputs of the node with key \<open>i\<close>.\<close>

fun add_links :: "string \<Rightarrow> (string \<times> pyval) list \<Rightarrow> dep_map \<Rightarrow> error + dep_map" where
  "add_links i [] dm = Inr dm"
| "add_links i ((input_name, PyList [a, b]) # d) dm =
     (if hashable a \<and> hashable b
      then add_links i d (dm((dict_key a, dict_key b) \<mapsto> (i, input_name)))
      else Inl TypeError)"
| "add_links i ((input_name, v) # d) dm = add_links i d dm"

text \<open>The first pass. Subscripting a top-level value that is not a node raises.\<close>

fun build_dep_map :: "workflow \<Rightarrow> dep_map \<Rightarrow> error + dep_map" where
  "build_dep_map [] dm = Inr dm"
| "build_dep_map ((i, Node n) # doc) dm =
     (case add_links i (inputs n) dm of
        Inl e \<Rightarrow> Inl e
      | Inr dm' \<Rightarrow> build_dep_map doc dm')"
| "build_dep_map ((i, Other v) # doc) dm = Inl TypeError"

text \<open>
  \<^verbatim>\<open>_get_node_identifier\<close>. The second argument is \<open>None\<close> where the source passes
  no \<^verbatim>\<open>dep_map\<close>; a \<^verbatim>\<open>dep_map\<close> that is empty has no key, so its truth value
  adds nothing to the membership test.
\<close>

definition get_node_identifier :: "node \<Rightarrow> dep_map option \<Rightarrow> error + string" where
  "get_node_identifier n dep =
     (case title n of
        None \<Rightarrow> Inl (KeyError ''title'')
      | Some t \<Rightarrow>
          if isidentifier t then Inr t
          else (case node_id n of
                  None \<Rightarrow> Inl (KeyError ''id'')
                | Some nid \<Rightarrow>
                    (case dep of
                       None \<Rightarrow> Inr (normalize_to_identifier t)
                     | Some dm \<Rightarrow>
                         (case dm (PyStr nid, PyInt 0) of
                            None \<Rightarrow> Inr (normalize_to_identifier t)
                          | Some (consumer, input_name) \<Rightarrow>
                              Inr (normalize_to_identifier input_name)))))"

text \<open>
  The second pass. The dictionaries \<^verbatim>\<open>inputs\<close> and \<^verbatim>\<open>outputs\<close> hold
  references to the node objects of the document; the key of a node in the document stands
  for the reference. The third component of the result is the document after the pass,
  every node visited carrying its \<^verbatim>\<open>id\<close>. Both branches test the name against
  \<^verbatim>\<open>inputs\<close>, as the source does.
\<close>

type_synonym names = "(string \<times> string) list"

fun parse_nodes ::
  "dep_map \<Rightarrow> workflow \<Rightarrow> names \<Rightarrow> names \<Rightarrow> error + names \<times> names \<times> workflow" where
  "parse_nodes dm [] ins outs = Inr (ins, outs, [])"
| "parse_nodes dm ((i, Other v) # doc) ins outs = Inl TypeError"
| "parse_nodes dm ((i, Node n0) # doc) ins outs =
     (let n = n0\<lparr>node_id := Some i\<rparr> in
      if startswith ''CPackInput'' (class_type n) then
        (case get_node_identifier n (Some dm) of
           Inl e \<Rightarrow> Inl e
         | Inr name \<Rightarrow>
             (let name' = (if name \<in> set (map fst ins) then name @ ''_'' @ i else name) in
              case parse_nodes dm doc (dict_set name' i ins) outs of
                Inl e \<Rightarrow> Inl e
              | Inr (ins', outs', doc') \<Rightarrow> Inr (ins', outs', (i, Node n) # doc')))
      else if startswith ''CPackOutput'' (class_type n) then
        (case get_node_identifier n None of
           Inl e \<Rightarrow> Inl e
         | Inr name \<Rightarrow>
             (let name' = (if name \<in> set (map fst ins) then name @ ''_'' @ i else name) in
              case parse_nodes dm doc ins (dict_set name' i outs) of
                Inl e \<Rightarrow> Inl e
              | Inr (ins', outs', doc') \<Rightarrow> Inr (ins', outs', (i, Node n) # doc')))
      else
        (case parse_nodes dm doc ins outs of
           Inl e \<Rightarrow> Inl e
         | Inr (ins', outs', doc') \<Rightarrow> Inr (ins', outs', (i, Node n) # doc')))"

text \<open>\<^verbatim>\<open>_parse_workflow\<close>: the sentinel test comes before both passes.\<close>

definition parse_workflow :: "workflow \<Rightarrow> error + names \<times> names \<times> workflow" where
  "parse_workflow doc =
     (if ''last_node_id'' \<in> set (map fst doc) then Inl FormatError
      else (case build_dep_map doc Map.empty of
              Inl e \<Rightarrow> Inl e
            | Inr dm \<Rightarrow> parse_nodes dm doc [] []))"

section \<open>The schema generator\<close>

text \<open>
  A field of the pydantic model is the pair of a type and a \<^verbatim>\<open>Field(...)\<close>:
  \<open>PathField\<close> is \<^verbatim>\<open>(Path, Field())\<close>, \<open>TypedField\<close> is
  \<^verbatim>\<open>(type(value), Field(default=value))\<close>, \<open>LiteralField\<close> is
  \<^verbatim>\<open>(Literal[tuple(values)], Field(default=value))\<close>, and \<open>NumberField\<close> is
  \<^verbatim>\<open>(type_, Field(default=value, ge=..., le=...))\<close>, a bound being \<open>None\<close> where
  the source passes \<^verbatim>\<open>PydanticUndefined\<close>. The result of
  \<^verbatim>\<open>generate_input_model\<close> is modelled by the dictionary \<^verbatim>\<open>input_fields\<close>
  it hands to pydantic's \<^verbatim>\<open>create_model\<close>.
\<close>

datatype pytype = TNone | TBool | TInt | TFloat | TStr | TList | TDict | TPath

fun type_of :: "pyval \<Rightarrow> pytype" where
  "type_of PyNone = TNone"
| "type_of (PyBool b) = TBool"
| "type_of (PyInt i) = TInt"
| "type_of (PyFloat r) = TFloat"
| "type_of (PyStr s) = TStr"
| "type_of (PyList xs) = TList"
| "type_of (PyDict d) = TDict"
| "type_of (PyPath p) = TPath"

datatype field =
    PathField
  | TypedField pytype pyval
  | LiteralField "pyval list" pyval
  | NumberField pytype pyval "pyval option" "pyval option"

text \<open>The truth value of a Python object.\<close>

fun truthy :: "pyval \<Rightarrow> bool" where
  "truthy PyNone = False"
| "truthy (PyBool b) = b"
| "truthy (PyInt i) = (i \<noteq> 0)"
| "truthy (PyFloat r) = (r \<noteq> 0)"
| "truthy (PyStr s) = (s \<noteq> [])"
| "truthy (PyList xs) = (xs \<noteq> [])"
| "truthy (PyDict d) = (d \<noteq> [])"
| "truthy (PyPath p) = True"

text \<open>\<^verbatim>\<open>x < 1\<close>: numbers and booleans compare, anything else raises.\<close>

fun less_than_one :: "pyval \<Rightarrow> error + bool" where
  "less_than_one (PyInt i) = Inr (i < 1)"
| "less_than_one (PyFloat r) = Inr (r < 1)"
| "less_than_one (PyBool b) = Inr (\<not> b)"
| "less_than_one v = Inl TypeError"

text \<open>\<^verbatim>\<open>tuple(values)\<close> for a value that is true: the elements of what can be iterated.\<close>

fun tuple_of :: "pyval \<Rightarrow> error + pyval list" where
  "tuple_of (PyList xs) = Inr xs"
| "tuple_of (PyStr s) = Inr (map (\<lambda>c. PyStr [c]) s)"
| "tuple_of (PyDict d) = Inr (map (\<lambda>kv. PyStr (fst kv)) d)"
| "tuple_of v = Inl TypeError"

text \<open>
  The branch for the class type \<^verbatim>\<open>CPackInputValue\<close>, for options that are true.
  Only a dictionary has \<^verbatim>\<open>get\<close>.
\<close>

definition value_field :: "pyval \<Rightarrow> pyval \<Rightarrow> error + field" where
  "value_field opts v =
     (case opts of
        PyDict d \<Rightarrow>
          (case map_of d ''values'' of
             Some values \<Rightarrow>
               if truthy values then
                 (case tuple_of values of
                    Inl e \<Rightarrow> Inl e
                  | Inr vs \<Rightarrow> Inr (LiteralField vs v))
               else if list_ex (\<lambda>f. f \<in> set (map fst d))
                         [''min'', ''max'', ''round'', ''precision'', ''step'']
               then
                 (case less_than_one (case map_of d ''round'' of None \<Rightarrow> PyInt 1 | Some r \<Rightarrow> r) of
                    Inl e \<Rightarrow> Inl e
                  | Inr b \<Rightarrow>
                      Inr (NumberField (if b then TFloat else TInt) v
                             (map_of d ''min'') (map_of d ''max'')))
               else Inr (TypedField (type_of v) v)
           | None \<Rightarrow>
               if list_ex (\<lambda>f. f \<in> set (map fst d))
                    [''min'', ''max'', ''round'', ''precision'', ''step'']
               then
                 (case less_than_one (case map_of d ''round'' of None \<Rightarrow> PyInt 1 | Some r \<Rightarrow> r) of
                    Inl e \<Rightarrow> Inl e
                  | Inr b \<Rightarrow>
                      Inr (NumberField (if b then TFloat else TInt) v
                             (map_of d ''min'') (map_of d ''max'')))
               else Inr (TypedField (type_of v) v))
      | _ \<Rightarrow> Inl AttributeError)"

text \<open>The body of the loop of \<^verbatim>\<open>generate_input_model\<close>: the field of one input node.\<close>

definition input_field :: "node \<Rightarrow> error + field" where
  "input_field n =
     (if class_type n \<in> set CPACK_PATH_INPUT_NODES then Inr PathField
      else if class_type n = ''CPackInputValue'' then
        (case get_node_value n of
           Inl e \<Rightarrow> Inl e
         | Inr v \<Rightarrow>
             (case options n of
                None \<Rightarrow> Inr (TypedField (type_of v) v)
              | Some opts \<Rightarrow>
                  if \<not> truthy opts then Inr (TypedField (type_of v) v)
                  else value_field opts v))
      else Inl (UnsupportedNodeError (class_type n)))"

text \<open>The loop over \<^verbatim>\<open>inputs.items()\<close>; a name refers to its node in the document.\<close>

fun input_fields :: "workflow \<Rightarrow> names \<Rightarrow> (string \<times> field) list \<Rightarrow> error + (string \<times> field) list" where
  "input_fields doc [] acc = Inr acc"
| "input_fields doc ((name, r) # ins) acc =
     (case map_of doc r of
        Some (Node n) \<Rightarrow>
          (case input_field n of
             Inl e \<Rightarrow> Inl e
           | Inr f \<Rightarrow> input_fields doc ins (dict_set name f acc))
      | _ \<Rightarrow> Inl (KeyError r))"

definition generate_input_model :: "workflow \<Rightarrow> error + (string \<times> field) list" where
  "generate_input_model doc =
     (case parse_workflow doc of
        Inl e \<Rightarrow> Inl e
      | Inr (ins, outs, doc') \<Rightarrow> input_fields doc' ins [])"

section \<open>The populator\<close>

text \<open>
  The first loop of \<^verbatim>\<open>populate_workflow\<close>, over the keyword arguments. The node
  \<^verbatim>\<open>input_spec[k]\<close> is read through its reference, and the node written is
  \<^verbatim>\<open>workflow[node["id"]]\<close>.
\<close>

fun set_inputs :: "names \<Rightarrow> (string \<times> pyval) list \<Rightarrow> workflow \<Rightarrow> error + workflow" where
  "set_inputs ins [] doc = Inr doc"
| "set_inputs ins ((k, v) # kwargs) doc =
     (case map_of ins k of
        None \<Rightarrow> Inl (KeyError k)
      | Some r \<Rightarrow>
          (case map_of doc r of
             Some (Node n) \<Rightarrow>
               if \<not> startswith ''CPackInput'' (class_type n) then Inl (InvalidNodeError k)
               else
                 (case node_id n of
                    None \<Rightarrow> Inl (KeyError ''id'')
                  | Some i \<Rightarrow>
                      (case map_of doc i of
                         Some (Node t) \<Rightarrow>
                           (case set_node_value t v of
                              Inl e \<Rightarrow> Inl e
                            | Inr t' \<Rightarrow> set_inputs ins kwargs (dict_set i (Node t') doc))
                       | Some (Other x) \<Rightarrow> Inl TypeError
                       | None \<Rightarrow> Inl (KeyError i)))
           | _ \<Rightarrow> Inl (KeyError r)))"

text \<open>The prefix \<^verbatim>\<open>(output_path / f"{session_id}{node_id}_").as_posix()\<close>.\<close>

definition filename_prefix :: "path \<Rightarrow> string \<Rightarrow> string \<Rightarrow> string" where
  "filename_prefix output_path session_id i = as_posix (joinpath output_path (session_id @ i @ ''_''))"

text \<open>The second loop of \<^verbatim>\<open>populate_workflow\<close>, over \<^verbatim>\<open>output_spec.items()\<close>.\<close>

fun set_prefixes :: "path \<Rightarrow> string \<Rightarrow> names \<Rightarrow> workflow \<Rightarrow> error + workflow" where
  "set_prefixes output_path session_id [] doc = Inr doc"
| "set_prefixes output_path session_id ((name, r) # outs) doc =
     (case map_of doc r of
        Some (Node n) \<Rightarrow>
          (case node_id n of
             None \<Rightarrow> Inl (KeyError ''id'')
           | Some i \<Rightarrow>
               if class_type n \<in> set CPACK_OUTPUT_NODES then
                 (case map_of doc i of
                    Some (Node t) \<Rightarrow>
                      set_prefixes output_path session_id outs
                        (dict_set i
                           (Node (t\<lparr>inputs := dict_set ''filename_prefix''
                                      (PyStr (filename_prefix output_path session_id i)) (inputs t)\<rparr>))
                           doc)
                  | Some (Other x) \<Rightarrow> Inl TypeError
                  | None \<Rightarrow> Inl (KeyError i))
               else set_prefixes output_path session_id outs doc)
      | _ \<Rightarrow> Inl (KeyError r))"

definition populate_workflow ::
  "workflow \<Rightarrow> path \<Rightarrow> string \<Rightarrow> (string \<times> pyval) list \<Rightarrow> error + workflow" where
  "populate_workflow doc output_path session_id kwargs =
     (case parse_workflow doc of
        Inl e \<Rightarrow> Inl e
      | Inr (input_spec, output_spec, doc1) \<Rightarrow>
          (case set_inputs input_spec kwargs doc1 of
             Inl e \<Rightarrow> Inl e
           | Inr doc2 \<Rightarrow> set_prefixes output_path session_id output_spec doc2))"

section \<open>The output resolver\<close>

text \<open>
  \<^verbatim>\<open>Path.glob\<close> belongs to the Python library and reads the file system: it is the
  parameter \<open>glob\<close>, from a directory and a pattern to the list of paths that match.
  What \<^verbatim>\<open>retrieve_workflow_outputs\<close> returns is a path, a list of paths, or a
  dictionary from output name to one of the two.
\<close>

datatype found = OnePath path | PathList "path list"

datatype retrieved = Single found | ValueMap "(string \<times> found) list"

definition one_or_list :: "path list \<Rightarrow> found" where
  "one_or_list ps = (case ps of [p] \<Rightarrow> OnePath p | _ \<Rightarrow> PathList ps)"

text \<open>The loop of the branch \<^verbatim>\<open>len(outputs) != 1\<close>.\<close>

fun value_map ::
  "(path \<Rightarrow> string \<Rightarrow> path list) \<Rightarrow> path \<Rightarrow> workflow \<Rightarrow> names \<Rightarrow> (string \<times> found) list
     \<Rightarrow> error + (string \<times> found) list" where
  "value_map glob output_path doc [] vm = Inr vm"
| "value_map glob output_path doc ((k, r) # outs) vm =
     (case map_of doc r of
        Some (Node n) \<Rightarrow>
          (case node_id n of
             None \<Rightarrow> Inl (KeyError ''id'')
           | Some i \<Rightarrow>
               value_map glob output_path doc outs
                 (dict_set k (one_or_list (glob output_path (i @ ''_*''))) vm))
      | _ \<Rightarrow> Inl (KeyError r))"

definition retrieve_workflow_outputs ::
  "(path \<Rightarrow> string \<Rightarrow> path list) \<Rightarrow> workflow \<Rightarrow> path \<Rightarrow> string \<Rightarrow> error + retrieved" where
  "retrieve_workflow_outputs glob doc output_path session_id =
     (case parse_workflow doc of
        Inl e \<Rightarrow> Inl e
      | Inr (ins, outputs, doc') \<Rightarrow>
          (case outputs of
             [(name, r)] \<Rightarrow>
               (case map_of doc' r of
                  Some (Node n) \<Rightarrow>
                    if class_type n \<notin> set CPACK_OUTPUT_NODES then Inl (InvalidOutputTypeError name)
                    else
                      (case node_id n of
                         None \<Rightarrow> Inl (KeyError ''id'')
                       | Some i \<Rightarrow>
                           Inr (Single (one_or_list (glob output_path (session_id @ i @ ''_*'')))))
                | _ \<Rightarrow> Inl (KeyError r))
           | _ \<Rightarrow>
               (case value_map glob output_path doc' outputs [] of
                  Inl e \<Rightarrow> Inl e
                | Inr vm \<Rightarrow> Inr (ValueMap vm))))"

section \<open>The file system\<close>

text \<open>
  The file system is a collaborator of \<^verbatim>\<open>package.py\<close>, reached through
  \<^verbatim>\<open>pathlib\<close>, \<^verbatim>\<open>os\<close> and \<^verbatim>\<open>shutil\<close>. It is modelled by what is at each
  path: a regular file with its content, a symbolic link with its target, or a directory.
  The path without components is a directory that is always there. The target of a link is
  read as a path from the same base as every other path, and a link in the middle of a path
  is not followed. Beside the files, the state holds the log of the changes made, in order.
\<close>

datatype fsentry = RegularFile string | SymLink path | Directory

datatype fsop =
    OpMkdir path
  | OpRename path path
  | OpSymlink path path
  | OpUnlink path
  | OpWrite path

record world =
  files :: "path \<Rightarrow> fsentry option"
  oplog :: "fsop list"

text \<open>What is at the path itself (\<^verbatim>\<open>os.lstat\<close>).\<close>

definition lstat :: "world \<Rightarrow> path \<Rightarrow> fsentry option" where
  "lstat w p = (if parts p = [] then Some Directory else files w p)"

text \<open>What the path leads to, through at most \<open>k\<close> links.\<close>

fun follow :: "nat \<Rightarrow> world \<Rightarrow> path \<Rightarrow> fsentry option" where
  "follow 0 w p = None"
| "follow (Suc k) w p =
     (case lstat w p of
        Some (SymLink q) \<Rightarrow> follow k w q
      | e \<Rightarrow> e)"

text \<open>\<^verbatim>\<open>os.stat\<close>: the system gives up after 40 links.\<close>

definition stat :: "world \<Rightarrow> path \<Rightarrow> fsentry option" where
  "stat w p = follow 40 w p"

text \<open>\<^verbatim>\<open>Path.exists()\<close>, \<^verbatim>\<open>Path.is_file()\<close> and \<^verbatim>\<open>Path.is_dir()\<close> follow links;
  \<^verbatim>\<open>Path.is_symlink()\<close> does not.\<close>

definition path_exists :: "world \<Rightarrow> path \<Rightarrow> bool" where
  "path_exists w p = (stat w p \<noteq> None)"

definition is_file :: "world \<Rightarrow> path \<Rightarrow> bool" where
  "is_file w p = (case stat w p of Some (RegularFile c) \<Rightarrow> True | _ \<Rightarrow> False)"

definition is_dir :: "world \<Rightarrow> path \<Rightarrow> bool" where
  "is_dir w p = (case stat w p of Some Directory \<Rightarrow> True | _ \<Rightarrow> False)"

definition is_symlink :: "world \<Rightarrow> path \<Rightarrow> bool" where
  "is_symlink w p = (case lstat w p of Some (SymLink q) \<Rightarrow> True | _ \<Rightarrow> False)"

text \<open>
  An operation on the file system returns the exception it raised, if any, and the state
  it left.
\<close>

type_synonym 'a outcome = "error option \<times> 'a"

definition put :: "path \<Rightarrow> fsentry option \<Rightarrow> fsop \<Rightarrow> world \<Rightarrow> world" where
  "put p e op w = w\<lparr>files := (files w)(p := e), oplog := oplog w @ [op]\<rparr>"

text \<open>\<^verbatim>\<open>Path.unlink()\<close>.\<close>

definition unlink :: "path \<Rightarrow> world \<Rightarrow> world outcome" where
  "unlink p w =
     (case lstat w p of
        None \<Rightarrow> (Some (FileNotFoundError p), w)
      | Some Directory \<Rightarrow> (Some (IsADirectoryError p), w)
      | Some e \<Rightarrow> (None, put p None (OpUnlink p) w))"

text \<open>\<^verbatim>\<open>os.symlink(source, target)\<close>.\<close>

definition symlink :: "path \<Rightarrow> path \<Rightarrow> world \<Rightarrow> world outcome" where
  "symlink source target w =
     (if lstat w target \<noteq> None then (Some (FileExistsError target), w)
      else (None, put target (Some (SymLink source)) (OpSymlink source target) w))"

text \<open>
  \<^verbatim>\<open>Path.mkdir(parents=True, exist_ok=True)\<close>: nothing to do for a directory, an
  error for anything else that is there, and the missing parents are made first.
\<close>

function mkdir_parents :: "path \<Rightarrow> world \<Rightarrow> world outcome" where
  "mkdir_parents p w =
     (if parts p = [] then (None, w)
      else
        (case files w p of
           Some e \<Rightarrow> (if is_dir w p then (None, w) else (Some (FileExistsError p), w))
         | None \<Rightarrow>
             (case stat w (parent p) of
                Some Directory \<Rightarrow> (None, put p (Some Directory) (OpMkdir p) w)
              | Some e \<Rightarrow> (Some (NotADirectoryError p), w)
              | None \<Rightarrow>
                  (case mkdir_parents (parent p) w of
                     (Some e, w') \<Rightarrow> (Some e, w')
                   | (None, w') \<Rightarrow> (None, put p (Some Directory) (OpMkdir p) w')))))"
  by pat_completeness auto
termination
  by (relation "measure (\<lambda>(p, w). length (parts p))") (auto simp: parent_def)

text \<open>
  \<^verbatim>\<open>shutil.move(src, dst)\<close> at its one call, where \<^verbatim>\<open>dst\<close> does not exist (nothing
  is there, or a link that leads nowhere) and \<^verbatim>\<open>src\<close> exists: \<^verbatim>\<open>os.rename\<close>, on one
  file system.
\<close>

definition move :: "path \<Rightarrow> path \<Rightarrow> world \<Rightarrow> world" where
  "move src dst w =
     w\<lparr>files := (files w)(src := None, dst := files w src),
       oplog := oplog w @ [OpRename src dst]\<rparr>"

text \<open>Opening a path for writing follows its links, and creates what the last one names.\<close>

fun write_target :: "nat \<Rightarrow> world \<Rightarrow> path \<Rightarrow> path option" where
  "write_target 0 w p = None"
| "write_target (Suc k) w p =
     (case lstat w p of
        Some (SymLink q) \<Rightarrow> write_target k w q
      | _ \<Rightarrow> Some p)"

definition write_file :: "path \<Rightarrow> string \<Rightarrow> world \<Rightarrow> world outcome" where
  "write_file p c w =
     (case write_target 40 w p of
        None \<Rightarrow> (Some (OSError p), w)
      | Some q \<Rightarrow>
          (case lstat w q of
             Some Directory \<Rightarrow> (Some (IsADirectoryError q), w)
           | _ \<Rightarrow>
               if is_dir w (parent q) then (None, put q (Some (RegularFile c)) (OpWrite q) w)
               else (Some (FileNotFoundError q), w)))"

text \<open>Reading the content of a file.\<close>

definition read_file :: "world \<Rightarrow> path \<Rightarrow> error + string" where
  "read_file w p =
     (case stat w p of
        Some (RegularFile c) \<Rightarrow> Inr c
      | Some e \<Rightarrow> Inl (IsADirectoryError p)
      | None \<Rightarrow> Inl (FileNotFoundError p))"

text \<open>\<^verbatim>\<open>shutil.copy2(src, dst)\<close>, where \<^verbatim>\<open>dst\<close> is not a directory.\<close>

definition copy2 :: "path \<Rightarrow> path \<Rightarrow> world \<Rightarrow> world outcome" where
  "copy2 src dst w =
     (if src = dst then (Some (OSError dst), w)
      else (case read_file w src of
              Inl e \<Rightarrow> (Some e, w)
            | Inr c \<Rightarrow> write_file dst c w))"

section \<open>Model resolution\<close>

text \<open>
  What \<^verbatim>\<open>package.py\<close> takes from outside: the constant \<^verbatim>\<open>MODEL_DIR\<close> of
  \<^verbatim>\<open>const.py\<close>, which the environment decides; the content hasher; and the network,
  which gives the content behind a URL or fails.

  Modelled from the spec: the content hasher \<^verbatim>\<open>get_sha256\<close> of \<^verbatim>\<open>hash.py\<close> is
  not among the sources; it "computes a stable content digest for an arbitrary file", so it
  is a function \<open>digest\<close> of the content, a parameter.
\<close>

record env =
  MODEL_DIR :: path
  digest :: "string \<Rightarrow> string"
  fetch :: "string \<Rightarrow> string option"

text \<open>An entry of \<^verbatim>\<open>snapshot["models"]\<close>; \<open>disabled\<close> is false when the key is missing.\<close>

record model =
  filename :: string
  sha256 :: string
  disabled :: bool

definition get_sha256 :: "env \<Rightarrow> world \<Rightarrow> path \<Rightarrow> error + string" where
  "get_sha256 env w p =
     (case read_file w p of
        Inl e \<Rightarrow> Inl e
      | Inr c \<Rightarrow> Inr (digest env c))"

text \<open>
  \<^verbatim>\<open>download_file\<close>. It runs in a thread of its own that the caller joins at once, and
  it lets no exception out of its body; one raised by the handler ends the thread and
  nothing else. So it only changes the file system.
\<close>

definition download_file :: "env \<Rightarrow> string \<Rightarrow> path \<Rightarrow> world \<Rightarrow> world" where
  "download_file env url dest_path w =
     (case fetch env url of
        None \<Rightarrow> (if path_exists w dest_path then snd (unlink dest_path w) else w)
      | Some c \<Rightarrow>
          (case write_file dest_path c w of
             (None, w') \<Rightarrow> w'
           | (Some e, w') \<Rightarrow>
               (if path_exists w' dest_path then snd (unlink dest_path w') else w')))"

definition create_model_symlink :: "path \<Rightarrow> string \<Rightarrow> path \<Rightarrow> string \<Rightarrow> world \<Rightarrow> world outcome" where
  "create_model_symlink global_path sha target_path fname w =
     (let source = joinpath global_path sha;
          target = joinpath target_path fname
      in
        if path_exists w target \<and> \<not> is_symlink w target
        then (Some (LinkConflictError target), w)
        else
          (case (if path_exists w target then unlink target w else (None, w)) of
             (Some e, w1) \<Rightarrow> (Some e, w1)
           | (None, w1) \<Rightarrow>
               (case mkdir_parents (parent target) w1 of
                  (Some e, w2) \<Rightarrow> (Some e, w2)
                | (None, w2) \<Rightarrow> symlink source target w2)))"

text \<open>
  The loop \<^verbatim>\<open>while True\<close> of \<^verbatim>\<open>retrive_models\<close>. The lines the user will type are
  a list; \<^verbatim>\<open>input\<close> raises \<^verbatim>\<open>EOFError\<close> at its end, outside the \<^verbatim>\<open>try\<close>. Every
  exception raised inside the \<^verbatim>\<open>try\<close> is caught, and the loop goes on with what the
  failed step left behind.
\<close>

fun prompt_loop ::
  "env \<Rightarrow> path \<Rightarrow> model \<Rightarrow> string list \<Rightarrow> world \<Rightarrow> (world \<times> string list) outcome" where
  "prompt_loop env workspace m [] w = (Some EOFError, w, [])"
| "prompt_loop env workspace m (line # lines) w =
     (if lower line = ''skip'' then (None, w, lines)
      else if startswith ''http://'' line \<or> startswith ''https://'' line then
        (let target_path = joinpath (MODEL_DIR env) (sha256 m);
             w1 = download_file env line target_path w
         in
           if \<not> path_exists w1 target_path then prompt_loop env workspace m lines w1
           else
             (case get_sha256 env w1 target_path of
                Inl e \<Rightarrow> prompt_loop env workspace m lines w1
              | Inr target_sha \<Rightarrow>
                  if target_sha \<noteq> sha256 m
                  then prompt_loop env workspace m lines (snd (unlink target_path w1))
                  else
                    (case create_model_symlink (MODEL_DIR env) (sha256 m) workspace (filename m) w1 of
                       (Some e, w2) \<Rightarrow> prompt_loop env workspace m lines w2
                     | (None, w2) \<Rightarrow> (None, w2, lines))))
      else
        (let downloaded_path = path_of_string line in
           if \<not> path_exists w downloaded_path then prompt_loop env workspace m lines w
           else
             (case get_sha256 env w downloaded_path of
                Inl e \<Rightarrow> prompt_loop env workspace m lines w
              | Inr target_sha \<Rightarrow>
                  if target_sha \<noteq> sha256 m then prompt_loop env workspace m lines w
                  else
                    (case copy2 downloaded_path (joinpath (MODEL_DIR env) (sha256 m)) w of
                       (Some e, w1) \<Rightarrow> prompt_loop env workspace m lines w1
                     | (None, w1) \<Rightarrow>
                         (case create_model_symlink (MODEL_DIR env) (sha256 m) workspace
                                 (filename m) w1 of
                            (Some e, w2) \<Rightarrow> prompt_loop env workspace m lines w2
                          | (None, w2) \<Rightarrow> (None, w2, lines))))))"

text \<open>The loop \<^verbatim>\<open>for model in models\<close>.\<close>

fun retrive_loop ::
  "env \<Rightarrow> path \<Rightarrow> bool \<Rightarrow> model list \<Rightarrow> string list \<Rightarrow> world \<Rightarrow> (world \<times> string list) outcome" where
  "retrive_loop env workspace download [] lines w = (None, w, lines)"
| "retrive_loop env workspace download (m # models) lines w =
     (let target = joinpath workspace (filename m);
          store = joinpath (MODEL_DIR env) (sha256 m)
      in
        if path_exists w target then
          (if \<not> path_exists w store \<and> is_file w target then
             (case create_model_symlink (MODEL_DIR env) (sha256 m) workspace (filename m)
                     (move target store w) of
                (Some e, w') \<Rightarrow> (Some e, w', lines)
              | (None, w') \<Rightarrow> retrive_loop env workspace download models lines w')
           else retrive_loop env workspace download models lines w)
        else if path_exists w store then
          (case create_model_symlink (MODEL_DIR env) (sha256 m) workspace (filename m) w of
             (Some e, w') \<Rightarrow> (Some e, w', lines)
           | (None, w') \<Rightarrow> retrive_loop env workspace download models lines w')
        else if disabled m then retrive_loop env workspace download models lines w
        else if \<not> download then retrive_loop env workspace download models lines w
        else
          (case prompt_loop env workspace m lines w of
             (Some e, w', lines') \<Rightarrow> (Some e, w', lines')
           | (None, w', lines') \<Rightarrow> retrive_loop env workspace download models lines' w'))"

definition retrive_models ::
  "env \<Rightarrow> model list \<Rightarrow> path \<Rightarrow> bool \<Rightarrow> string list \<Rightarrow> world \<Rightarrow> (world \<times> string list) outcome" where
  "retrive_models env models workspace download lines w =
     (if models = [] then (None, w, lines)
      else
        (case mkdir_parents (MODEL_DIR env) w of
           (Some e, w') \<Rightarrow> (Some e, w', lines)
         | (None, w') \<Rightarrow> retrive_loop env workspace download models lines w'))"

section \<open>Example inputs\<close>

text \<open>The ordinary, non-API export of a workflow: no top-level value is a node.\<close>

definition ordinary_export :: workflow where
  "ordinary_export =
     [(''last_node_id'', Other (PyInt 9)),
      (''last_link_id'', Other (PyInt 11)),
      (''nodes'', Other (PyList [])),
      (''links'', Other (PyList []))]"

text \<open>
  An input node of class \<^verbatim>\<open>CPackInputValue\<close> with the value \<^verbatim>\<open>0.5\<close> and the options
  \<^verbatim>\<open>{"min": 0, "max": 1, "step": 0.01}\<close>.
\<close>

definition value_node :: node where
  "value_node =
     \<lparr>class_type = ''CPackInputValue'',
      inputs = [(''value'', PyFloat (1 / 2))],
      title = Some ''strength'',
      options = Some (PyDict [(''min'', PyInt 0), (''max'', PyInt 1), (''step'', PyFloat (1 / 100))]),
      node_id = None\<rparr>"

text \<open>Two output nodes of a recognized kind that carry the same title.\<close>

definition two_outputs :: workflow where
  "two_outputs =
     [(''7'', Node \<lparr>class_type = ''CPackOutputImage'',
         inputs = [(''images'', PyList [PyStr ''3'', PyInt 0]), (''filename_prefix'', PyStr ''a'')],
         title = Some ''result'', options = None, node_id = None\<rparr>),
      (''8'', Node \<lparr>class_type = ''CPackOutputImage'',
         inputs = [(''images'', PyList [PyStr ''4'', PyInt 0]), (''filename_prefix'', PyStr ''b'')],
         title = Some ''result'', options = None, node_id = None\<rparr>)]"

text \<open>One output node, and a directory listing in which one file matches its pattern.\<close>

definition single_output :: workflow where
  "single_output =
     [(''3'', Node \<lparr>class_type = ''KSampler'',
         inputs = [(''seed'', PyInt 5)],
         title = Some ''KSampler'', options = None, node_id = None\<rparr>),
      (''7'', Node \<lparr>class_type = ''CPackOutputImage'',
         inputs = [(''images'', PyList [PyStr ''3'', PyInt 0]), (''filename_prefix'', PyStr ''a'')],
         title = Some ''result'', options = None, node_id = None\<rparr>)]"

definition example_glob :: "path \<Rightarrow> string \<Rightarrow> path list" where
  "example_glob d pattern =
     (if pattern = ''run1_7_*'' then [joinpath d ''run1_7_00001_.png''] else [])"

text \<open>
  A store, a workspace and a manifest of one model. In \<open>unlinked_world\<close> the workspace
  holds a regular file at the path of the model, whose content does not have the hash of
  the manifest, and the store is empty. In \<open>linked_world\<close> the path of the model is a link
  to the entry of the store.
\<close>

definition example_env :: env where
  "example_env =
     \<lparr>MODEL_DIR = path_of_string ''/home/u/.comfypack/models'',
      digest = (\<lambda>c. ''sha-'' @ c),
      fetch = (\<lambda>url. None)\<rparr>"

definition example_workspace :: path where
  "example_workspace = path_of_string ''/work''"

definition example_model :: model where
  "example_model = \<lparr>filename = ''models/m.bin'', sha256 = ''sha-good'', disabled = False\<rparr>"

definition unlinked_world :: world where
  "unlinked_world =
     \<lparr>files = map_of
        [(path_of_string ''/work/models/m.bin'', RegularFile ''junk''),
         (path_of_string ''/work/models'', Directory),
         (path_of_string ''/work'', Directory),
         (path_of_string ''/home/u/.comfypack/models'', Directory)],
      oplog = []\<rparr>"

definition linked_world :: world where
  "linked_world =
     \<lparr>files = map_of
        [(path_of_string ''/work/models/m.bin'',
            SymLink (path_of_string ''/home/u/.comfypack/models/sha-good'')),
         (path_of_string ''/home/u/.comfypack/models/sha-good'', RegularFile ''good''),
         (path_of_string ''/work/models'', Directory),
         (path_of_string ''/work'', Directory),
         (path_of_string ''/home/u/.comfypack/models'', Directory)],
      oplog = []\<rparr>"

text \<open>
  An input node whose output is wired into the filename prefix of an output node; and a
  workflow in which the slots that population writes hold plain values, with the document
  that population makes of it for \<^verbatim>\<open>seed=42\<close>, the output directory \<^verbatim>\<open>/out\<close> and
  the session id \<^verbatim>\<open>run1_\<close>.
\<close>

definition prefix_wired :: workflow where
  "prefix_wired =
     [(''1'', Node \<lparr>class_type = ''CPackInputValue'',
         inputs = [(''value'', PyStr ''img'')],
         title = Some ''File Prefix'', options = None, node_id = None\<rparr>),
      (''7'', Node \<lparr>class_type = ''CPackOutputImage'',
         inputs = [(''images'', PyList [PyStr ''3'', PyInt 0]),
                   (''filename_prefix'', PyList [PyStr ''1'', PyInt 0])],
         title = Some ''result'', options = None, node_id = None\<rparr>)]"

definition plain_workflow :: workflow where
  "plain_workflow =
     [(''1'', Node \<lparr>class_type = ''CPackInputValue'',
         inputs = [(''value'', PyInt 5), (''label'', PyStr ''x'')],
         title = Some ''seed'', options = None, node_id = None\<rparr>),
      (''3'', Node \<lparr>class_type = ''KSampler'',
         inputs = [(''seed'', PyList [PyStr ''1'', PyInt 0])],
         title = Some ''KSampler'', options = None, node_id = None\<rparr>),
      (''7'', Node \<lparr>class_type = ''CPackOutputImage'',
         inputs = [(''images'', PyList [PyStr ''3'', PyInt 0]), (''filename_prefix'', PyStr ''a'')],
         title = Some ''result'', options = None, node_id = None\<rparr>)]"

definition populated_plain_workflow :: workflow where
  "populated_plain_workflow =
     [(''1'', Node \<lparr>class_type = ''CPackInputValue'',
         inputs = [(''value'', PyInt 42), (''label'', PyStr ''x'')],
         title = Some ''seed'', options = None, node_id = Some ''1''\<rparr>),
      (''3'', Node \<lparr>class_type = ''KSampler'',
         inputs = [(''seed'', PyList [PyStr ''1'', PyInt 0])],
         title = Some ''KSampler'', options = None, node_id = Some ''3''\<rparr>),
      (''7'', Node \<lparr>class_type = ''CPackOutputImage'',
         inputs = [(''images'', PyList [PyStr ''3'', PyInt 0]),
                   (''filename_prefix'', PyStr ''/out/run1_7_'')],
         title = Some ''result'', options = None, node_id = Some ''7''\<rparr>)]"

section \<open>Notions used in the statements\<close>

text \<open>An entry of the document after parsing: a node carries its key as \<^verbatim>\<open>id\<close>.\<close>

definition with_id :: "string \<times> entry \<Rightarrow> string \<times> entry" where
  "with_id ie =
     (case ie of
        (i, Node n) \<Rightarrow> (i, Node (n\<lparr>node_id := Some i\<rparr>))
      | (i, Other v) \<Rightarrow> (i, Other v))"

text \<open>The entries that the second pass of the parser takes for output nodes.\<close>

definition is_output_node :: "string \<times> entry \<Rightarrow> bool" where
  "is_output_node ie =
     (case snd ie of
        Node n \<Rightarrow> startswith ''CPackOutput'' (class_type n)
      | Other v \<Rightarrow> False)"

text \<open>
  A manifest entry is linked: its path in the workspace is a symbolic link to the entry of
  the store for its hash, that entry is a regular file, and the store is a directory.
\<close>

definition linked :: "env \<Rightarrow> path \<Rightarrow> world \<Rightarrow> model \<Rightarrow> bool" where
  "linked env workspace w m =
     (lstat w (joinpath workspace (filename m)) =
        Some (SymLink (joinpath (MODEL_DIR env) (sha256 m))) \<and>
      (case lstat w (joinpath (MODEL_DIR env) (sha256 m)) of
         Some (RegularFile c) \<Rightarrow> True
       | _ \<Rightarrow> False) \<and>
      is_dir w (MODEL_DIR env))"

text \<open>A value that the first pass of the parser takes for a link: a list of two elements.\<close>

fun is_link :: "pyval \<Rightarrow> bool" where
  "is_link (PyList [a, b]) = True"
| "is_link v = False"

text \<open>The slots of a node that hold links, in order.\<close>

definition link_slots :: "(string \<times> pyval) list \<Rightarrow> (string \<times> pyval) list" where
  "link_slots d = filter (\<lambda>kv. is_link (snd kv)) d"

text \<open>The node of an entry carries the key of the entry as its \<^verbatim>\<open>id\<close>.\<close>

definition has_id :: "string \<times> entry \<Rightarrow> bool" where
  "has_id ie = (case snd ie of Node n \<Rightarrow> node_id n = Some (fst ie) | Other v \<Rightarrow> True)"

text \<open>
  The slots that population may write hold no link: the first slot of an input node, and
  the filename prefix of an output node of a recognized kind.
\<close>

definition plain_slots :: "string \<times> entry \<Rightarrow> bool" where
  "plain_slots ie =
     (case snd ie of
        Other v \<Rightarrow> True
      | Node n \<Rightarrow>
          if startswith ''CPackInput'' (class_type n)
          then (case inputs n of [] \<Rightarrow> True | (k, v) # d \<Rightarrow> \<not> is_link v)
          else if class_type n \<in> set CPACK_OUTPUT_NODES
          then (case map_of (inputs n) ''filename_prefix'' of None \<Rightarrow> True | Some v \<Rightarrow> \<not> is_link v)
          else True)"

text \<open>
  Two entries that the parser cannot tell apart: the same class type, the same title and
  the same links.
\<close>

fun same_links :: "entry \<Rightarrow> entry \<Rightarrow> bool" where
  "same_links (Node a) (Node b) =
     (class_type b = class_type a \<and> title b = title a \<and> link_slots (inputs b) = link_slots (inputs a))"
| "same_links (Other u) (Other v) = (v = u)"
| "same_links e e' = False"

text \<open>The names of the inputs and of the outputs that parsing gives, in order.\<close>

definition parsed_names :: "workflow \<Rightarrow> (string list \<times> string list) option" where
  "parsed_names doc =
     (case parse_workflow doc of
        Inl e \<Rightarrow> None
      | Inr (ins, outs, doc') \<Rightarrow> Some (map fst ins, map fst outs))"

definition names_of :: "error + names \<times> names \<times> workflow \<Rightarrow> error + names \<times> names" where
  "names_of r = (case r of Inl e \<Rightarrow> Inl e | Inr (ins, outs, doc) \<Rightarrow> Inr (ins, outs))"

text \<open>The keys of the nodes that the keyword arguments name.\<close>

definition targeted :: "names \<Rightarrow> (string \<times> pyval) list \<Rightarrow> string list" where
  "targeted ins kwargs = List.map_filter (\<lambda>kv. map_of ins (fst kv)) kwargs"

text \<open>
  What population may do to the entry with key \<open>i\<close>: a value that is not a node stays as
  it is; a node keeps its class type, its title and its options and carries its key as
  \<^verbatim>\<open>id\<close>. The inputs of an input node that a keyword argument names keep their keys,
  and all but the first keep their values; the inputs of an output node of a recognized
  kind are as before, or as before with the filename prefix set; the inputs of any other
  node are as before.
\<close>

fun frame :: "string list \<Rightarrow> path \<Rightarrow> string \<Rightarrow> string \<Rightarrow> entry \<Rightarrow> entry \<Rightarrow> bool" where
  "frame ts output_path session_id i (Node n) (Node n') =
     (class_type n' = class_type n \<and> title n' = title n \<and> options n' = options n \<and>
      node_id n' = Some i \<and>
      (if startswith ''CPackInput'' (class_type n) \<and> i \<in> set ts
       then map fst (inputs n') = map fst (inputs n) \<and> tl (inputs n') = tl (inputs n)
       else if class_type n \<in> set CPACK_OUTPUT_NODES
       then inputs n' = inputs n \<or>
            inputs n' = dict_set ''filename_prefix''
                          (PyStr (filename_prefix output_path session_id i)) (inputs n)
       else inputs n' = inputs n))"
| "frame ts output_path session_id i (Other u) (Other v) = (v = u)"
| "frame ts output_path session_id i e e' = False"

section \<open>Properties of the parser and of name normalization\<close>

lemmas char_defs =
  isalpha_def isdigit_def is_word_char_def digits_def ascii_lowercase_def ascii_uppercase_def

text \<open>
  Claim C9. \<^verbatim>\<open>_parse_workflow\<close> fails with the format error on every document that has
  the top-level key \<^verbatim>\<open>last_node_id\<close>. The test is the first thing it does: the equation
  holds whatever the entries of the document are, also for entries that are not nodes, on
  which the first pass would raise another error. So no node is inspected before the
  failure.
\<close>

theorem parse_workflow_sentinel:
  "''last_node_id'' \<in> set (map fst doc) \<Longrightarrow> parse_workflow doc = Inl FormatError"
  by (simp add: parse_workflow_def)

theorem parse_workflow_sentinel_witness:
  "''last_node_id'' \<in> set (map fst ordinary_export) \<and>
   parse_workflow ordinary_export = Inl FormatError"
  using parse_workflow_sentinel [of ordinary_export]
  by (simp add: ordinary_export_def)

text \<open>
  Without the sentinel key the same entries are inspected, and the first one that is not a
  node makes the first pass fail.
\<close>

lemma parse_workflow_not_a_node:
  "parse_workflow [(''nodes'', Other (PyList []))] = Inl TypeError"
  by (simp add: parse_workflow_def)

text \<open>
  Claim C7. The claim is that \<^verbatim>\<open>_normalize_to_identifier\<close> returns a valid identifier
  for every string. On \<^verbatim>\<open>"1abc"\<close> the code puts an underscore in front of the digit and
  then strips it again with \<^verbatim>\<open>strip("_")\<close>: the result is \<^verbatim>\<open>"1abc"\<close>, which is not
  an identifier.
\<close>

theorem normalize_to_identifier_leading_digit:
  "normalize_to_identifier ''1abc'' = ''1abc'' \<and>
   \<not> isidentifier (normalize_to_identifier ''1abc'')"
  by code_simp

text \<open>
  Claim C2. The claim is that the keys of the outputs are unique because a collision is
  broken by suffixing the node id. The branch for outputs tests the name against
  \<^verbatim>\<open>inputs\<close>, not \<^verbatim>\<open>outputs\<close>: of two output nodes with the title \<^verbatim>\<open>result\<close>, the
  second takes the key of the first, which is no longer in the mapping.
\<close>

theorem parse_workflow_output_collision:
  "parse_workflow two_outputs =
     Inr ([], [(''result'', ''8'')],
       [(''7'', Node \<lparr>class_type = ''CPackOutputImage'',
           inputs = [(''images'', PyList [PyStr ''3'', PyInt 0]), (''filename_prefix'', PyStr ''a'')],
           title = Some ''result'', options = None, node_id = Some ''7''\<rparr>),
        (''8'', Node \<lparr>class_type = ''CPackOutputImage'',
           inputs = [(''images'', PyList [PyStr ''4'', PyInt 0]), (''filename_prefix'', PyStr ''b'')],
           title = Some ''result'', options = None, node_id = Some ''8''\<rparr>)])"
  by (simp add: two_outputs_def parse_workflow_def get_node_identifier_def startswith_def
      isidentifier_def char_defs Let_def)

section \<open>Properties of the schema generator\<close>

text \<open>
  Claim C3, as stated: the field generated for the value \<^verbatim>\<open>0.5\<close> with the options
  \<^verbatim>\<open>{"min": 0, "max": 1, "step": 0.01}\<close> is a floating-point field. It is not: without
  the key \<^verbatim>\<open>round\<close> the code takes \<^verbatim>\<open>options.get("round", 1)\<close>, which is not below
  1, and the type is \<^verbatim>\<open>int\<close>.
\<close>

theorem generate_input_model_no_round_not_float:
  "generate_input_model [(''1'', Node value_node)] =
     Inr [(''strength'', NumberField TInt (PyFloat (1 / 2)) (Some (PyInt 0)) (Some (PyInt 1)))] \<and>
   generate_input_model [(''1'', Node value_node)] \<noteq>
     Inr [(''strength'', NumberField TFloat (PyFloat (1 / 2)) (Some (PyInt 0)) (Some (PyInt 1)))]"
  by (simp add: generate_input_model_def parse_workflow_def value_node_def get_node_identifier_def
      startswith_def isidentifier_def char_defs input_field_def get_node_value_def value_field_def
      CPACK_PATH_INPUT_NODES_def Let_def)

text \<open>
  Claim C3, amended: for an input node of class \<^verbatim>\<open>CPackInputValue\<close> whose value is
  \<^verbatim>\<open>0.5\<close> and whose options are \<^verbatim>\<open>{"min": 0, "max": 1, "step": 0.01}\<close>, the field
  generated is an integer field with default \<^verbatim>\<open>0.5\<close>, lower bound 0 and upper bound 1.
\<close>

theorem input_field_no_round_int:
  assumes "class_type n = ''CPackInputValue''"
    and "inputs n = (k, PyFloat (1 / 2)) # rest"
    and "options n =
           Some (PyDict [(''min'', PyInt 0), (''max'', PyInt 1), (''step'', PyFloat (1 / 100))])"
  shows "input_field n = Inr (NumberField TInt (PyFloat (1 / 2)) (Some (PyInt 0)) (Some (PyInt 1)))"
  using assms
  by (simp add: input_field_def get_node_value_def value_field_def CPACK_PATH_INPUT_NODES_def)

theorem input_field_no_round_int_witness:
  "class_type value_node = ''CPackInputValue'' \<and>
   inputs value_node = (''value'', PyFloat (1 / 2)) # [] \<and>
   options value_node =
     Some (PyDict [(''min'', PyInt 0), (''max'', PyInt 1), (''step'', PyFloat (1 / 100))]) \<and>
   input_field value_node =
     Inr (NumberField TInt (PyFloat (1 / 2)) (Some (PyInt 0)) (Some (PyInt 1)))"
  using input_field_no_round_int [of value_node "''value''" "[]"]
  by (simp add: value_node_def)

section \<open>Properties of the populator\<close>

text \<open>
  Claim C8. The claim is that population sets the filename prefix of every output node of
  a recognized kind. The loop runs over \<^verbatim>\<open>output_spec\<close>, and of two output nodes with
  the same title only the second is in it: node 7 keeps the prefix it had, node 8 gets
  \<^verbatim>\<open>/out/run1_8_\<close>.
\<close>

theorem populate_workflow_skips_shadowed_output:
  "populate_workflow two_outputs (path_of_string ''/out'') ''run1_'' [] =
     Inr [(''7'', Node \<lparr>class_type = ''CPackOutputImage'',
           inputs = [(''images'', PyList [PyStr ''3'', PyInt 0]), (''filename_prefix'', PyStr ''a'')],
           title = Some ''result'', options = None, node_id = Some ''7''\<rparr>),
          (''8'', Node \<lparr>class_type = ''CPackOutputImage'',
           inputs = [(''images'', PyList [PyStr ''4'', PyInt 0]),
                     (''filename_prefix'', PyStr ''/out/run1_8_'')],
           title = Some ''result'', options = None, node_id = Some ''8''\<rparr>)]"
  by (simp add: populate_workflow_def two_outputs_def parse_workflow_def get_node_identifier_def
      startswith_def isidentifier_def char_defs CPACK_OUTPUT_NODES_def filename_prefix_def
      joinpath_def path_of_string_def as_posix_def Let_def)

section \<open>Properties of the output resolver\<close>

lemma startswith_iff: "startswith p s \<longleftrightarrow> (\<exists>r. s = p @ r)"
  unfolding startswith_def
  by (metis append_eq_conv_conj append_take_drop_id)

lemma startswith_output_not_input:
  "startswith ''CPackOutput'' s \<Longrightarrow> \<not> startswith ''CPackInput'' s"
  by (auto simp: startswith_iff)

lemma parse_nodes_doc:
  "parse_nodes dm doc ins outs = Inr (ins', outs', doc') \<Longrightarrow> doc' = map with_id doc"
proof (induction doc arbitrary: ins outs ins' outs' doc')
  case Nil
  then show ?case by simp
next
  case (Cons ie doc)
  obtain i e where ie: "ie = (i, e)" by (cases ie)
  show ?case
  proof (cases e)
    case (Other v)
    with Cons.prems ie show ?thesis by simp
  next
    case (Node n0)
    with Cons.prems ie Cons.IH show ?thesis
      by (auto simp: with_id_def Let_def split: if_splits sum.splits prod.splits)
  qed
qed

lemma parse_nodes_no_outputs:
  "filter is_output_node doc = [] \<Longrightarrow> parse_nodes dm doc ins outs = Inr (ins', outs', doc')
   \<Longrightarrow> outs' = outs"
proof (induction doc arbitrary: ins outs ins' outs' doc')
  case Nil
  then show ?case by simp
next
  case (Cons ie doc)
  obtain i e where ie: "ie = (i, e)" by (cases ie)
  show ?case
  proof (cases e)
    case (Other v)
    with Cons.prems ie show ?thesis by simp
  next
    case (Node n0)
    with Cons.prems ie Cons.IH show ?thesis
      by (auto simp: is_output_node_def Let_def split: if_splits sum.splits prod.splits)
  qed
qed

lemma parse_nodes_one_output:
  "filter is_output_node doc = [(i, Node n)] \<Longrightarrow> parse_nodes dm doc ins [] = Inr (ins', outs', doc')
   \<Longrightarrow> \<exists>name. outs' = [(name, i)]"
proof (induction doc arbitrary: ins ins' outs' doc')
  case Nil
  then show ?case by simp
next
  case (Cons ie doc)
  obtain j e where ie: "ie = (j, e)" by (cases ie)
  show ?case
  proof (cases e)
    case (Other v)
    with Cons.prems ie show ?thesis by simp
  next
    case (Node n0)
    show ?thesis
    proof (cases "startswith ''CPackOutput'' (class_type n0)")
      case True
      then have io: "is_output_node (j, Node n0)" by (simp add: is_output_node_def)
      with Cons.prems(1) ie Node have eq: "j = i" "n0 = n" and rest: "filter is_output_node doc = []"
        by simp_all
      from True have ni: "\<not> startswith ''CPackInput'' (class_type n0)"
        by (rule startswith_output_not_input)
      from Cons.prems(2) ie Node True ni eq rest show ?thesis
        by (auto simp: Let_def split: sum.splits prod.splits dest: parse_nodes_no_outputs)
    next
      case False
      then have io: "\<not> is_output_node (j, Node n0)" by (simp add: is_output_node_def)
      with Cons.prems(1) ie Node have rest: "filter is_output_node doc = [(i, Node n)]"
        by simp
      from Cons.prems(2) ie Node False Cons.IH[OF rest] show ?thesis
        by (auto simp: Let_def split: if_splits sum.splits prod.splits)
    qed
  qed
qed

lemma map_of_with_id:
  "distinct (map fst doc) \<Longrightarrow> (i, Node n) \<in> set doc
   \<Longrightarrow> map_of (map with_id doc) i = Some (Node (n\<lparr>node_id := Some i\<rparr>))"
proof (induction doc)
  case Nil
  then show ?case by simp
next
  case (Cons ie doc)
  then show ?case
    by (cases ie) (force simp: with_id_def split: entry.splits)
qed

lemma one_or_list_eq:
  "one_or_list ps = (if length ps = 1 then OnePath (hd ps) else PathList ps)"
  by (cases ps; cases "tl ps") (auto simp: one_or_list_def split: list.splits)

text \<open>
  Claim C6. When the document parses and exactly one of its entries is an output node,
  \<^verbatim>\<open>retrieve_workflow_outputs\<close> fails with the error for an output of the wrong type
  if the class type of that node is not a recognized output kind; otherwise it globs the
  output directory with the pattern made of the session id, the node id and \<^verbatim>\<open>_*\<close>, and
  returns the match when there is exactly one, the list of matches when there is none or
  more than one. The keys of the document are distinct, as those of a dictionary are.
\<close>

theorem retrieve_single_output:
  assumes parsed: "parse_workflow doc = Inr (ins, outs, doc')"
    and keys: "distinct (map fst doc)"
    and one: "filter is_output_node doc = [(i, Node n)]"
  shows "retrieve_workflow_outputs glob doc output_path session_id =
     (if class_type n \<notin> set CPACK_OUTPUT_NODES
      then Inl (InvalidOutputTypeError (fst (hd outs)))
      else
        (let found = glob output_path (session_id @ i @ ''_*'')
         in Inr (Single (if length found = 1 then OnePath (hd found) else PathList found))))"
proof -
  from parsed obtain dm where pn: "parse_nodes dm doc [] [] = Inr (ins, outs, doc')"
    by (auto simp: parse_workflow_def split: if_splits sum.splits)
  from parse_nodes_one_output[OF one pn] obtain name where outs: "outs = [(name, i)]" by blast
  from parse_nodes_doc[OF pn] have doc': "doc' = map with_id doc" .
  have "(i, Node n) \<in> set (filter is_output_node doc)" using one by simp
  then have mem: "(i, Node n) \<in> set doc" by simp
  from map_of_with_id[OF keys mem] doc' have look: "map_of doc' i = Some (Node (n\<lparr>node_id := Some i\<rparr>))"
    by simp
  show ?thesis
    using parsed outs look
    by (simp add: retrieve_workflow_outputs_def one_or_list_eq Let_def)
qed

theorem retrieve_single_output_witness:
  "parse_workflow single_output = Inr ([], [(''result'', ''7'')], map with_id single_output) \<and>
   distinct (map fst single_output) \<and>
   filter is_output_node single_output =
     [(''7'', Node \<lparr>class_type = ''CPackOutputImage'',
         inputs = [(''images'', PyList [PyStr ''3'', PyInt 0]), (''filename_prefix'', PyStr ''a'')],
         title = Some ''result'', options = None, node_id = None\<rparr>)] \<and>
   retrieve_workflow_outputs example_glob single_output (path_of_string ''/out'') ''run1_'' =
     Inr (Single (OnePath (path_of_string ''/out/run1_7_00001_.png'')))"
proof -
  have p: "parse_workflow single_output = Inr ([], [(''result'', ''7'')], map with_id single_output)"
    by (simp add: single_output_def parse_workflow_def get_node_identifier_def startswith_def
        isidentifier_def char_defs with_id_def Let_def)
  have k: "distinct (map fst single_output)"
    by (simp add: single_output_def)
  have f: "filter is_output_node single_output =
     [(''7'', Node \<lparr>class_type = ''CPackOutputImage'',
         inputs = [(''images'', PyList [PyStr ''3'', PyInt 0]), (''filename_prefix'', PyStr ''a'')],
         title = Some ''result'', options = None, node_id = None\<rparr>)]"
    by (simp add: single_output_def is_output_node_def startswith_def)
  have g: "path_of_string ''/out/run1_7_00001_.png'' =
     joinpath (path_of_string ''/out'') ''run1_7_00001_.png''"
    by (simp add: joinpath_def path_of_string_def startswith_def)
  from retrieve_single_output [OF p k f, of example_glob "path_of_string ''/out''" "''run1_''"]
  show ?thesis using p k f g
    by (simp add: CPACK_OUTPUT_NODES_def example_glob_def Let_def)
qed

section \<open>Population: what it changes, and parsing again\<close>

text \<open>
  Both loops of \<^verbatim>\<open>populate_workflow\<close> only replace a node of the document by a changed
  copy of itself. A property of documents that every such step keeps is kept by the loops.
\<close>

lemma set_inputs_invariant:
  assumes "set_inputs ins kwargs doc = Inr doc2" and "Q doc"
    and step: "\<And>d k v r n i t t'. Q d \<Longrightarrow> (k, v) \<in> set kwargs \<Longrightarrow> map_of ins k = Some r \<Longrightarrow>
      map_of d r = Some (Node n) \<Longrightarrow> startswith ''CPackInput'' (class_type n) \<Longrightarrow>
      node_id n = Some i \<Longrightarrow> map_of d i = Some (Node t) \<Longrightarrow> set_node_value t v = Inr t' \<Longrightarrow>
      Q (dict_set i (Node t') d)"
  shows "Q doc2"
  using assms(1,2) step
proof (induction kwargs arbitrary: doc)
  case Nil
  then show ?case by simp
next
  case (Cons kv kwargs)
  obtain k v where kv: "kv = (k, v)" by (cases kv)
  from Cons.prems(1) kv obtain r n i t t' where
    a: "map_of ins k = Some r" "map_of doc r = Some (Node n)"
       "startswith ''CPackInput'' (class_type n)" "node_id n = Some i"
       "map_of doc i = Some (Node t)" "set_node_value t v = Inr t'"
    and rest: "set_inputs ins kwargs (dict_set i (Node t') doc) = Inr doc2"
    by (auto split: option.splits entry.splits if_splits sum.splits)
  have q: "Q (dict_set i (Node t') doc)"
    using Cons.prems(2) a kv by (intro Cons.prems(3)[of doc k v r n i t t']) auto
  show ?case
    by (rule Cons.IH[OF rest q]) (auto intro: Cons.prems(3))
qed

lemma set_prefixes_invariant:
  assumes "set_prefixes out sid outs doc = Inr doc2" and "Q doc"
    and step: "\<And>d r n i t. Q d \<Longrightarrow> map_of d r = Some (Node n) \<Longrightarrow>
      class_type n \<in> set CPACK_OUTPUT_NODES \<Longrightarrow>
      node_id n = Some i \<Longrightarrow> map_of d i = Some (Node t) \<Longrightarrow>
      Q (dict_set i (Node (t\<lparr>inputs := dict_set ''filename_prefix''
                 (PyStr (filename_prefix out sid i)) (inputs t)\<rparr>)) d)"
  shows "Q doc2"
  using assms(1,2) step
proof (induction outs arbitrary: doc)
  case Nil
  then show ?case by simp
next
  case (Cons nr outs)
  obtain name r where nr: "nr = (name, r)" by (cases nr)
  from Cons.prems(1) nr obtain n i where
    a: "map_of doc r = Some (Node n)" "node_id n = Some i"
    by (auto split: option.splits entry.splits if_splits sum.splits)
  show ?case
  proof (cases "class_type n \<in> set CPACK_OUTPUT_NODES")
    case False
    with Cons.prems(1) nr a have "set_prefixes out sid outs doc = Inr doc2" by simp
    from Cons.IH[OF this Cons.prems(2)] Cons.prems(3) show ?thesis by blast
  next
    case True
    with Cons.prems(1) nr a obtain t where
      t: "map_of doc i = Some (Node t)"
      and rest: "set_prefixes out sid outs (dict_set i (Node (t\<lparr>inputs := dict_set ''filename_prefix''
                 (PyStr (filename_prefix out sid i)) (inputs t)\<rparr>)) doc) = Inr doc2"
      by (auto split: option.splits entry.splits)
    have q: "Q (dict_set i (Node (t\<lparr>inputs := dict_set ''filename_prefix''
                 (PyStr (filename_prefix out sid i)) (inputs t)\<rparr>)) doc)"
      using Cons.prems(2) a(1) True a(2) t by (rule Cons.prems(3))
    from Cons.IH[OF rest q] Cons.prems(3) show ?thesis by blast
  qed
qed

lemma dict_set_list_all:
  "list_all S d \<Longrightarrow> S (i, e') \<Longrightarrow> list_all S (dict_set i e' d)"
  by (induction d) auto

lemma map_of_list_all:
  "map_of d i = Some e \<Longrightarrow> list_all S d \<Longrightarrow> S (i, e)"
  by (auto dest!: map_of_SomeD simp: list_all_iff)

lemma dict_set_list_all2:
  assumes "list_all2 (\<lambda>x y. fst y = fst x \<and> P (fst x) (snd x) (snd y)) d0 d"
    and "map_of d i = Some e"
    and "\<And>e0. P i e0 e \<Longrightarrow> P i e0 e'"
  shows "list_all2 (\<lambda>x y. fst y = fst x \<and> P (fst x) (snd x) (snd y)) d0 (dict_set i e' d)"
  using assms(1,2)
proof (induction d0 d rule: list_all2_induct)
  case Nil
  then show ?case by simp
next
  case (Cons x xs y ys)
  then show ?case using assms(3)
    by (cases x; cases y) (auto split: if_splits)
qed


text \<open>
  The parser reads of a node its class type, its title and its links, and nothing else.
\<close>

lemma is_link_cases: "is_link v \<Longrightarrow> \<exists>a b. v = PyList [a, b]"
  by (cases v rule: is_link.cases) auto

lemma add_links_skip: "\<not> is_link v \<Longrightarrow> add_links i ((k, v) # d) dm = add_links i d dm"
  by (cases v rule: is_link.cases) auto

lemma add_links_link_slots: "add_links i (link_slots d) dm = add_links i d dm"
proof (induction d arbitrary: dm)
  case Nil
  then show ?case by (simp add: link_slots_def)
next
  case (Cons kv d)
  obtain k v where kv: "kv = (k, v)" by (cases kv)
  show ?case
  proof (cases "is_link v")
    case True
    then obtain a b where v: "v = PyList [a, b]" using is_link_cases by blast
    have ls: "link_slots (kv # d) = (k, PyList [a, b]) # link_slots d"
      by (simp add: link_slots_def kv v)
    have l: "add_links i (link_slots (kv # d)) dm =
       (if hashable a \<and> hashable b
        then add_links i (link_slots d) (dm((dict_key a, dict_key b) \<mapsto> (i, k)))
        else Inl TypeError)"
      unfolding ls by (rule add_links.simps(2))
    have r: "add_links i (kv # d) dm =
       (if hashable a \<and> hashable b
        then add_links i d (dm((dict_key a, dict_key b) \<mapsto> (i, k)))
        else Inl TypeError)"
      unfolding kv v by (rule add_links.simps(2))
    show ?thesis
      unfolding l r Cons.IH ..
  next
    case False
    with kv Cons.IH show ?thesis by (simp add: link_slots_def add_links_skip)
  qed
qed

lemma same_links_trans: "same_links a b \<Longrightarrow> same_links b c \<Longrightarrow> same_links a c"
  by (cases a; cases b; cases c) auto

lemma build_dep_map_same_links:
  "list_all2 (\<lambda>x y. fst y = fst x \<and> same_links (snd x) (snd y)) doc doc2 \<Longrightarrow>
   build_dep_map doc2 dm = build_dep_map doc dm"
proof (induction doc doc2 arbitrary: dm rule: list_all2_induct)
  case Nil
  then show ?case by simp
next
  case (Cons x xs y ys)
  obtain i e where x: "x = (i, e)" by (cases x)
  obtain j e' where y: "y = (j, e')" by (cases y)
  from Cons(1) x y have ji: "j = i" and sl: "same_links e e'" by simp_all
  show ?case
  proof (cases e)
    case (Other u)
    with sl have "e' = Other u" by (cases e') auto
    with Other x y ji show ?thesis by simp
  next
    case (Node a)
    with sl obtain b where b: "e' = Node b" "link_slots (inputs b) = link_slots (inputs a)"
      by (cases e') auto
    have "add_links i (inputs b) dm = add_links i (inputs a) dm"
      using add_links_link_slots[of i "inputs b" dm] add_links_link_slots[of i "inputs a" dm] b(2)
      by simp
    with Node b x y ji Cons.IH show ?thesis by (simp split: sum.splits)
  qed
qed

lemma names_of_parse_nodes_Node:
  "names_of (parse_nodes dm ((i, Node n0) # doc) ins outs) =
     (if startswith ''CPackInput'' (class_type n0) then
        (case get_node_identifier (n0\<lparr>node_id := Some i\<rparr>) (Some dm) of
           Inl e \<Rightarrow> Inl e
         | Inr name \<Rightarrow>
             names_of (parse_nodes dm doc
               (dict_set (if name \<in> set (map fst ins) then name @ ''_'' @ i else name) i ins) outs))
      else if startswith ''CPackOutput'' (class_type n0) then
        (case get_node_identifier (n0\<lparr>node_id := Some i\<rparr>) None of
           Inl e \<Rightarrow> Inl e
         | Inr name \<Rightarrow>
             names_of (parse_nodes dm doc ins
               (dict_set (if name \<in> set (map fst ins) then name @ ''_'' @ i else name) i outs)))
      else names_of (parse_nodes dm doc ins outs))"
  by (simp add: names_of_def Let_def split: sum.splits prod.splits)

lemma parse_nodes_same_links:
  "list_all2 (\<lambda>x y. fst y = fst x \<and> same_links (snd x) (snd y)) doc doc2 \<Longrightarrow>
   names_of (parse_nodes dm doc2 ins outs) = names_of (parse_nodes dm doc ins outs)"
proof (induction doc doc2 arbitrary: ins outs rule: list_all2_induct)
  case Nil
  then show ?case by simp
next
  case (Cons x xs y ys)
  obtain i e where x: "x = (i, e)" by (cases x)
  obtain j e' where y: "y = (j, e')" by (cases y)
  from Cons(1) x y have ji: "j = i" and sl: "same_links e e'" by simp_all
  show ?case
  proof (cases e)
    case (Other u)
    with sl have "e' = Other u" by (cases e') auto
    with Other x y ji show ?thesis by simp
  next
    case (Node a)
    with sl obtain b where b: "e' = Node b" "class_type b = class_type a" "title b = title a"
      by (cases e') auto
    have g: "get_node_identifier (b\<lparr>node_id := Some i\<rparr>) d = get_node_identifier (a\<lparr>node_id := Some i\<rparr>) d" for d
      using b by (simp add: get_node_identifier_def split: option.splits)
    show ?thesis
      unfolding x y ji Node b(1) names_of_parse_nodes_Node b(2) g
      by (simp add: Cons.IH split: sum.splits)
  qed
qed

lemma list_all2_keys:
  "list_all2 (\<lambda>x y. fst y = fst x \<and> P x y) doc doc2 \<Longrightarrow> map fst doc2 = map fst doc"
  by (induction doc doc2 rule: list_all2_induct) auto

lemma parse_workflow_same_links:
  assumes "list_all2 (\<lambda>x y. fst y = fst x \<and> same_links (snd x) (snd y)) doc doc2"
  shows "names_of (parse_workflow doc2) = names_of (parse_workflow doc)"
proof -
  from list_all2_keys[OF assms] have k: "map fst doc2 = map fst doc" .
  show ?thesis
    using build_dep_map_same_links[OF assms, of Map.empty] parse_nodes_same_links[OF assms] k
    by (auto simp: parse_workflow_def names_of_def split: sum.splits)
qed


lemma with_id_same_links:
  "list_all2 (\<lambda>x y. fst y = fst x \<and> same_links (snd x) (snd y)) doc (map with_id doc)"
proof (induction doc)
  case Nil
  then show ?case by simp
next
  case (Cons ie doc)
  obtain i e where "ie = (i, e)" by (cases ie)
  with Cons show ?case by (cases e) (auto simp: with_id_def)
qed

lemma with_id_has_id: "list_all has_id (map with_id doc)"
proof (induction doc)
  case Nil
  then show ?case by simp
next
  case (Cons ie doc)
  obtain i e where "ie = (i, e)" by (cases ie)
  with Cons show ?case by (cases e) (auto simp: with_id_def has_id_def)
qed

lemma with_id_plain_slots: "list_all plain_slots doc \<Longrightarrow> list_all plain_slots (map with_id doc)"
proof (induction doc)
  case Nil
  then show ?case by simp
next
  case (Cons ie doc)
  obtain i e where "ie = (i, e)" by (cases ie)
  with Cons show ?case by (cases e) (auto simp: with_id_def plain_slots_def)
qed

lemma output_class_not_input:
  "c \<in> set CPACK_OUTPUT_NODES \<Longrightarrow> \<not> startswith ''CPackInput'' c"
  by (auto simp: CPACK_OUTPUT_NODES_def startswith_def)

lemma link_slots_dict_set:
  "\<not> is_link v' \<Longrightarrow> (case map_of d k of None \<Rightarrow> True | Some v \<Rightarrow> \<not> is_link v) \<Longrightarrow>
   link_slots (dict_set k v' d) = link_slots d"
  by (induction d) (auto simp: link_slots_def split: if_splits)

lemma map_of_dict_set_same: "map_of (dict_set k v d) k = Some v"
  by (induction d) auto

lemma parse_workflow_doc:
  "parse_workflow doc = Inr (ins, outs, doc1) \<Longrightarrow> doc1 = map with_id doc"
  by (auto simp: parse_workflow_def split: if_splits sum.splits dest: parse_nodes_doc)

lemma set_node_value_plain:
  assumes "set_node_value n v = Inr t'" and "\<not> is_link v"
    and "startswith ''CPackInput'' (class_type n)" and "plain_slots (i, Node n)"
  shows "same_links (Node n) (Node t') \<and> plain_slots (i, Node t') \<and> node_id t' = node_id n"
proof -
  from assms(1) obtain key old d where
    n: "inputs n = (key, old) # d"
    and t': "t' = n\<lparr>inputs := (key, (case v of PyPath p \<Rightarrow> PyStr (as_posix p) | _ \<Rightarrow> v)) # d\<rparr>"
    by (auto simp: set_node_value_def split: list.splits)
  have nl: "\<not> is_link (case v of PyPath p \<Rightarrow> PyStr (as_posix p) | _ \<Rightarrow> v)"
    using assms(2) by (cases v) auto
  from assms(3,4) n have "\<not> is_link old" by (simp add: plain_slots_def)
  with n t' nl assms(3) show ?thesis
    by (simp add: link_slots_def plain_slots_def)
qed

text \<open>
  Claim C5, as stated: parsing the populated document gives the same names as parsing the
  document. In \<open>prefix_wired\<close> the input node 1 has a title that is no identifier and
  takes its name, \<^verbatim>\<open>filename_prefix\<close>, from the slot of node 7 that consumes it.
  Population, with no values at all, writes the prefix into that slot; the link is gone, and
  on parsing again the node is named \<^verbatim>\<open>file_prefix\<close> after its title.
\<close>

theorem populate_renames_input:
  "parsed_names prefix_wired = Some ([''filename_prefix''], [''result'']) \<and>
   (case populate_workflow prefix_wired (path_of_string ''/out'') ''run1_'' [] of
      Inl e \<Rightarrow> None
    | Inr doc \<Rightarrow> parsed_names doc) = Some ([''file_prefix''], [''result''])"
  by code_simp

text \<open>
  Claim C5, amended: if no slot that population may write holds a link (the first slot of
  each input node, the filename prefix of each output node of a recognized kind) and no
  value supplied is a list of two elements, then whenever population succeeds, parsing the
  populated document gives the same input names and the same output names, in the same
  order, as parsing the document.
\<close>

theorem populate_reparse_names:
  assumes pop: "populate_workflow doc output_path session_id kwargs = Inr doc2"
    and plain: "list_all plain_slots doc"
    and vals: "list_all (\<lambda>kv. \<not> is_link (snd kv)) kwargs"
  shows "parsed_names doc2 = parsed_names doc \<and> parsed_names doc \<noteq> None"
proof -
  from pop obtain ins outs doc1 docm where
    p: "parse_workflow doc = Inr (ins, outs, doc1)"
    and si: "set_inputs ins kwargs doc1 = Inr docm"
    and sp: "set_prefixes output_path session_id outs docm = Inr doc2"
    by (auto simp: populate_workflow_def split: sum.splits)
  define Q where "Q d \<longleftrightarrow>
     list_all2 (\<lambda>x y. fst y = fst x \<and> same_links (snd x) (snd y)) doc d \<and>
     list_all has_id d \<and> list_all plain_slots d" for d
  from parse_workflow_doc[OF p] have d1: "doc1 = map with_id doc" .
  have q1: "Q doc1"
    unfolding Q_def d1
    using with_id_same_links with_id_has_id with_id_plain_slots[OF plain] by blast
  have upd: "Q (dict_set i (Node t') d)"
    if q: "Q d" and t: "map_of d i = Some (Node t)" and sl: "same_links (Node t) (Node t')"
      and pl: "plain_slots (i, Node t')" and idt: "node_id t' = node_id t" for d i t t'
  proof -
    from map_of_list_all[OF t, of has_id] q have "has_id (i, Node t)" by (simp add: Q_def)
    with idt have h: "has_id (i, Node t')" by (simp add: has_id_def)
    have "list_all2 (\<lambda>x y. fst y = fst x \<and> same_links (snd x) (snd y)) doc (dict_set i (Node t') d)"
    proof (rule dict_set_list_all2[where P = "\<lambda>i. same_links", OF _ t])
      show "list_all2 (\<lambda>x y. fst y = fst x \<and> same_links (snd x) (snd y)) doc d"
        using q by (simp add: Q_def)
      show "same_links e0 (Node t')" if "same_links e0 (Node t)" for e0
        using that sl by (rule same_links_trans)
    qed
    with q h pl show ?thesis
      by (simp add: Q_def dict_set_list_all)
  qed
  have qm: "Q docm"
  proof (rule set_inputs_invariant[where Q = Q, OF si q1])
    fix d k v r n i t t'
    assume q: "Q d" and kv: "(k, v) \<in> set kwargs" and r: "map_of d r = Some (Node n)"
      and c: "startswith ''CPackInput'' (class_type n)" and i: "node_id n = Some i"
      and t: "map_of d i = Some (Node t)" and sv: "set_node_value t v = Inr t'"
    from map_of_list_all[OF r, of has_id] q have "has_id (r, Node n)" by (simp add: Q_def)
    with i have ir: "i = r" by (simp add: has_id_def)
    with r t have tn: "t = n" by simp
    from kv vals have nv: "\<not> is_link v" by (auto simp: list_all_iff)
    from map_of_list_all[OF t, of plain_slots] q have "plain_slots (i, Node t)" by (simp add: Q_def)
    from set_node_value_plain[OF sv nv _ this] c tn
    have "same_links (Node t) (Node t')" "plain_slots (i, Node t')" "node_id t' = node_id t"
      by simp_all
    with q t show "Q (dict_set i (Node t') d)" by (intro upd)
  qed
  have q2: "Q doc2"
  proof (rule set_prefixes_invariant[where Q = Q, OF sp qm])
    fix d r n i t
    assume q: "Q d" and r: "map_of d r = Some (Node n)"
      and c: "class_type n \<in> set CPACK_OUTPUT_NODES" and i: "node_id n = Some i"
      and t: "map_of d i = Some (Node t)"
    from map_of_list_all[OF r, of has_id] q have "has_id (r, Node n)" by (simp add: Q_def)
    with i have ir: "i = r" by (simp add: has_id_def)
    with r t have tn: "t = n" by simp
    from map_of_list_all[OF t, of plain_slots] q have pt: "plain_slots (i, Node t)" by (simp add: Q_def)
    from c tn have ct: "class_type t \<in> set CPACK_OUTPUT_NODES" by simp
    from output_class_not_input[OF ct] have ni: "\<not> startswith ''CPackInput'' (class_type t)" .
    let ?t' = "t\<lparr>inputs := dict_set ''filename_prefix''
                 (PyStr (filename_prefix output_path session_id i)) (inputs t)\<rparr>"
    from pt ct ni have old: "case map_of (inputs t) ''filename_prefix'' of None \<Rightarrow> True | Some v \<Rightarrow> \<not> is_link v"
      by (simp add: plain_slots_def)
    have "link_slots (inputs ?t') = link_slots (inputs t)"
      using link_slots_dict_set[OF _ old] by simp
    then have sl: "same_links (Node t) (Node ?t')" by simp
    have pl: "plain_slots (i, Node ?t')"
      using ct ni by (simp add: plain_slots_def map_of_dict_set_same)
    from q t sl pl show "Q (dict_set i (Node ?t') d)" by (intro upd) simp_all
  qed
  then have "names_of (parse_workflow doc2) = names_of (parse_workflow doc)"
    unfolding Q_def by (intro parse_workflow_same_links) simp
  with p show ?thesis
    by (auto simp: parsed_names_def names_of_def split: sum.splits)
qed


theorem populate_reparse_names_witness:
  "populate_workflow plain_workflow (path_of_string ''/out'') ''run1_'' [(''seed'', PyInt 42)] =
     Inr populated_plain_workflow \<and>
   list_all plain_slots plain_workflow \<and>
   list_all (\<lambda>kv. \<not> is_link (snd kv)) [(''seed'', PyInt 42)] \<and>
   parsed_names populated_plain_workflow = parsed_names plain_workflow \<and>
   parsed_names plain_workflow \<noteq> None"
proof -
  have a: "populate_workflow plain_workflow (path_of_string ''/out'') ''run1_'' [(''seed'', PyInt 42)] =
     Inr populated_plain_workflow"
    by code_simp
  have b: "list_all plain_slots plain_workflow"
    by code_simp
  have c: "list_all (\<lambda>kv. \<not> is_link (snd kv)) [(''seed'', PyInt 42)]"
    by simp
  from populate_reparse_names [OF a b c] a b c show ?thesis
    by simp
qed

text \<open>The steps of population against the frame.\<close>

lemma dict_set_twice: "dict_set k v (dict_set k v' d) = dict_set k v d"
  by (induction d) auto

lemma with_id_frame:
  "list_all2 (\<lambda>x y. fst y = fst x \<and> frame ts output_path session_id (fst x) (snd x) (snd y))
     doc (map with_id doc)"
proof (induction doc)
  case Nil
  then show ?case by simp
next
  case (Cons ie doc)
  obtain i e where "ie = (i, e)" by (cases ie)
  with Cons show ?case by (cases e) (auto simp: with_id_def)
qed

lemma targetedI:
  "(k, v) \<in> set kwargs \<Longrightarrow> map_of ins k = Some r \<Longrightarrow> r \<in> set (targeted ins kwargs)"
  by (force simp: targeted_def List.map_filter_def image_iff)

text \<open>
  Claim C10. When population succeeds, the populated document has the keys of the
  document, in order, and each of its entries is in the relation \<open>frame\<close> with the entry
  it comes from: of an input node that a keyword argument names, only the first slot may
  differ; of an output node of a recognized kind, only the filename prefix; every node
  carries its \<^verbatim>\<open>id\<close>; and nothing else is changed.
\<close>

theorem populate_workflow_frame:
  assumes p: "parse_workflow doc = Inr (ins, outs, doc1)"
    and pop: "populate_workflow doc output_path session_id kwargs = Inr doc2"
  shows "list_all2
     (\<lambda>x y. fst y = fst x \<and>
        frame (targeted ins kwargs) output_path session_id (fst x) (snd x) (snd y))
     doc doc2"
proof -
  from pop p obtain docm where
    si: "set_inputs ins kwargs doc1 = Inr docm"
    and sp: "set_prefixes output_path session_id outs docm = Inr doc2"
    by (auto simp: populate_workflow_def split: sum.splits)
  let ?F = "frame (targeted ins kwargs) output_path session_id"
  define Q where "Q d \<longleftrightarrow>
     list_all2 (\<lambda>x y. fst y = fst x \<and> ?F (fst x) (snd x) (snd y)) doc d \<and> list_all has_id d" for d
  from parse_workflow_doc[OF p] have d1: "doc1 = map with_id doc" .
  have q1: "Q doc1"
    unfolding Q_def d1 using with_id_frame with_id_has_id by blast
  have upd: "Q (dict_set i (Node t') d)"
    if q: "Q d" and t: "map_of d i = Some (Node t)"
      and fr: "\<And>e0. ?F i e0 (Node t) \<Longrightarrow> ?F i e0 (Node t')"
      and idt: "node_id t' = node_id t" for d i t t'
  proof -
    from map_of_list_all[OF t, of has_id] q have "has_id (i, Node t)" by (simp add: Q_def)
    with idt have h: "has_id (i, Node t')" by (simp add: has_id_def)
    have "list_all2 (\<lambda>x y. fst y = fst x \<and> ?F (fst x) (snd x) (snd y)) doc (dict_set i (Node t') d)"
    proof (rule dict_set_list_all2[where P = ?F, OF _ t])
      show "list_all2 (\<lambda>x y. fst y = fst x \<and> ?F (fst x) (snd x) (snd y)) doc d"
        using q by (simp add: Q_def)
      show "?F i e0 (Node t')" if "?F i e0 (Node t)" for e0
        using that by (rule fr)
    qed
    with q h show ?thesis
      by (simp add: Q_def dict_set_list_all)
  qed
  have qm: "Q docm"
  proof (rule set_inputs_invariant[where Q = Q, OF si q1])
    fix d k v r n i t t'
    assume q: "Q d" and kv: "(k, v) \<in> set kwargs" and kr: "map_of ins k = Some r"
      and r: "map_of d r = Some (Node n)"
      and c: "startswith ''CPackInput'' (class_type n)" and i: "node_id n = Some i"
      and t: "map_of d i = Some (Node t)" and sv: "set_node_value t v = Inr t'"
    from map_of_list_all[OF r, of has_id] q have "has_id (r, Node n)" by (simp add: Q_def)
    with i have ir: "i = r" by (simp add: has_id_def)
    with r t have tn: "t = n" by simp
    from targetedI[OF kv kr] ir have tg: "i \<in> set (targeted ins kwargs)" by simp
    from sv obtain key old rest where
      n: "inputs t = (key, old) # rest"
      and t': "t' = t\<lparr>inputs := (key, (case v of PyPath p \<Rightarrow> PyStr (as_posix p) | _ \<Rightarrow> v)) # rest\<rparr>"
      by (auto simp: set_node_value_def split: list.splits)
    show "Q (dict_set i (Node t') d)"
    proof (rule upd[OF q t])
      show "node_id t' = node_id t" by (simp add: t')
      fix e0 assume f: "?F i e0 (Node t)"
      then obtain n0 where e0: "e0 = Node n0" by (cases e0) auto
      from f e0 c tn tg n t' show "?F i e0 (Node t')" by auto
    qed
  qed
  have q2: "Q doc2"
  proof (rule set_prefixes_invariant[where Q = Q, OF sp qm])
    fix d r n i t
    assume q: "Q d" and r: "map_of d r = Some (Node n)"
      and c: "class_type n \<in> set CPACK_OUTPUT_NODES" and i: "node_id n = Some i"
      and t: "map_of d i = Some (Node t)"
    from map_of_list_all[OF r, of has_id] q have "has_id (r, Node n)" by (simp add: Q_def)
    with i have ir: "i = r" by (simp add: has_id_def)
    with r t have tn: "t = n" by simp
    from c tn have ct: "class_type t \<in> set CPACK_OUTPUT_NODES" by simp
    from output_class_not_input[OF ct] have ni: "\<not> startswith ''CPackInput'' (class_type t)" .
    let ?t' = "t\<lparr>inputs := dict_set ''filename_prefix''
                 (PyStr (filename_prefix output_path session_id i)) (inputs t)\<rparr>"
    show "Q (dict_set i (Node ?t') d)"
    proof (rule upd[OF q t])
      show "node_id ?t' = node_id t" by simp
      fix e0 assume f: "?F i e0 (Node t)"
      then obtain n0 where e0: "e0 = Node n0" by (cases e0) auto
      from f e0 ct ni show "?F i e0 (Node ?t')" by (auto simp: dict_set_twice)
    qed
  qed
  then show ?thesis by (simp add: Q_def)
qed

theorem populate_workflow_frame_witness:
  "parse_workflow plain_workflow =
     Inr ([(''seed'', ''1'')], [(''result'', ''7'')], map with_id plain_workflow) \<and>
   populate_workflow plain_workflow (path_of_string ''/out'') ''run1_'' [(''seed'', PyInt 42)] =
     Inr populated_plain_workflow \<and>
   list_all2
     (\<lambda>x y. fst y = fst x \<and>
        frame (targeted [(''seed'', ''1'')] [(''seed'', PyInt 42)]) (path_of_string ''/out'') ''run1_''
          (fst x) (snd x) (snd y))
     plain_workflow populated_plain_workflow"
proof -
  have a: "parse_workflow plain_workflow =
     Inr ([(''seed'', ''1'')], [(''result'', ''7'')], map with_id plain_workflow)"
    by code_simp
  have b: "populate_workflow plain_workflow (path_of_string ''/out'') ''run1_'' [(''seed'', PyInt 42)] =
     Inr populated_plain_workflow"
    by code_simp
  from populate_workflow_frame [OF a b] a b show ?thesis
    by simp
qed

section \<open>Properties of model resolution\<close>

lemma butlast_neq: "xs \<noteq> [] \<Longrightarrow> butlast xs \<noteq> xs"
  by (induction xs) auto

lemma stat_regular: "lstat w p = Some (RegularFile c) \<Longrightarrow> stat w p = Some (RegularFile c)"
  by (simp add: stat_def eval_nat_numeral)

lemma stat_directory: "lstat w p = Some Directory \<Longrightarrow> stat w p = Some Directory"
  by (simp add: stat_def eval_nat_numeral)

lemma stat_missing: "lstat w p = None \<Longrightarrow> stat w p = None"
  by (simp add: stat_def eval_nat_numeral)

lemma stat_link_regular:
  "lstat w p = Some (SymLink q) \<Longrightarrow> lstat w q = Some (RegularFile c) \<Longrightarrow> stat w p = Some (RegularFile c)"
  by (simp add: stat_def eval_nat_numeral)

lemma mkdir_parents_is_dir: "is_dir w p \<Longrightarrow> mkdir_parents p w = (None, w)"
proof (cases "parts p = []")
  case True
  then show ?thesis by (subst mkdir_parents.simps) simp
next
  case False
  assume d: "is_dir w p"
  show ?thesis
  proof (cases "files w p")
    case None
    with False have "lstat w p = None" by (simp add: lstat_def)
    then have "stat w p = None" by (rule stat_missing)
    with d show ?thesis by (simp add: is_dir_def)
  next
    case (Some e)
    with False d show ?thesis by (subst mkdir_parents.simps) simp
  qed
qed

lemma retrive_loop_linked:
  "list_all (linked env workspace w) models \<Longrightarrow>
   retrive_loop env workspace download models lines w = (None, w, lines)"
proof (induction models)
  case Nil
  then show ?case by simp
next
  case (Cons m models)
  then have l: "linked env workspace w m" and rest: "list_all (linked env workspace w) models"
    by simp_all
  from l obtain c where
    t: "lstat w (joinpath workspace (filename m)) = Some (SymLink (joinpath (MODEL_DIR env) (sha256 m)))"
    and s: "lstat w (joinpath (MODEL_DIR env) (sha256 m)) = Some (RegularFile c)"
    by (auto simp: linked_def split: option.splits fsentry.splits)
  from stat_link_regular[OF t s] have et: "path_exists w (joinpath workspace (filename m))"
    by (simp add: path_exists_def)
  from stat_regular[OF s] have es: "path_exists w (joinpath (MODEL_DIR env) (sha256 m))"
    by (simp add: path_exists_def)
  from et es Cons.IH[OF rest] show ?case by (simp add: Let_def)
qed

text \<open>
  Claim C4. When every entry of the manifest is linked, \<^verbatim>\<open>retrive_models\<close> raises
  nothing and returns the state it was given: the files are the same and the log of changes
  has grown by nothing, so there was no move, copy, link creation or deletion; and no line
  of input was read. This holds with and without \<^verbatim>\<open>download\<close>, and whatever the
  content of the entries of the store.
\<close>

theorem retrive_models_idempotent:
  assumes "list_all (linked env workspace w) models"
  shows "retrive_models env models workspace download lines w = (None, w, lines)"
proof (cases models)
  case Nil
  then show ?thesis by (simp add: retrive_models_def)
next
  case (Cons m ms)
  with assms have "is_dir w (MODEL_DIR env)" by (simp add: linked_def)
  then have "mkdir_parents (MODEL_DIR env) w = (None, w)" by (rule mkdir_parents_is_dir)
  with Cons retrive_loop_linked[OF assms] show ?thesis
    by (simp add: retrive_models_def)
qed

theorem retrive_models_idempotent_witness:
  "list_all (linked example_env example_workspace linked_world) [example_model] \<and>
   retrive_models example_env [example_model] example_workspace True [] linked_world =
     (None, linked_world, [])"
proof -
  have h: "list_all (linked example_env example_workspace linked_world) [example_model]"
    by code_simp
  from retrive_models_idempotent [OF h, of True "[]"] h show ?thesis
    by simp
qed

text \<open>
  Claim C1, as stated: a regular file at the path of a model whose content does not have
  the hash of the manifest makes resolution fail with the link conflict error, and is
  never moved. In \<open>unlinked_world\<close> the file holds \<open>junk\<close>, whose digest is not the hash
  of the manifest; resolution raises nothing, moves the file into the store under that hash
  and leaves a link in its place.
\<close>

theorem retrive_models_moves_differing_file:
  "digest example_env ''junk'' \<noteq> sha256 example_model \<and>
   lstat unlinked_world (joinpath example_workspace (filename example_model)) =
     Some (RegularFile ''junk'') \<and>
   fst (retrive_models example_env [example_model] example_workspace False [] unlinked_world) =
     None \<and>
   files (fst (snd (retrive_models example_env [example_model] example_workspace False []
                      unlinked_world)))
     (path_of_string ''/work/models/m.bin'') =
     Some (SymLink (path_of_string ''/home/u/.comfypack/models/sha-good'')) \<and>
   files (fst (snd (retrive_models example_env [example_model] example_workspace False []
                      unlinked_world)))
     (path_of_string ''/home/u/.comfypack/models/sha-good'') =
     Some (RegularFile ''junk'')"
  by code_simp

text \<open>
  Claim C1, amended: when the path of a manifest entry in the workspace is a regular file
  (in a directory), whatever its content, resolution raises no error for that entry and
  goes on to the next one. If the store has an entry for the hash, the file and everything
  else are left as they were; if it has none, the file is moved into the store under the
  hash and a symbolic link to it is put in its place. The content of the file is never
  compared with the hash.
\<close>

theorem retrive_loop_regular_file:
  assumes reg: "lstat w (joinpath workspace (filename m)) = Some (RegularFile c)"
    and dir: "lstat w (parent (joinpath workspace (filename m))) = Some Directory"
  shows "retrive_loop env workspace download (m # models) lines w =
     retrive_loop env workspace download models lines
       (if path_exists w (joinpath (MODEL_DIR env) (sha256 m)) then w
        else w\<lparr>files := (files w)
                  (joinpath (MODEL_DIR env) (sha256 m) \<mapsto> RegularFile c,
                   joinpath workspace (filename m) \<mapsto> SymLink (joinpath (MODEL_DIR env) (sha256 m))),
               oplog := oplog w @
                  [OpRename (joinpath workspace (filename m)) (joinpath (MODEL_DIR env) (sha256 m)),
                   OpSymlink (joinpath (MODEL_DIR env) (sha256 m)) (joinpath workspace (filename m))]\<rparr>)"
proof -
  define target where "target = joinpath workspace (filename m)"
  define store where "store = joinpath (MODEL_DIR env) (sha256 m)"
  note reg1 = reg[folded target_def] and dir' = dir[folded target_def]
  from stat_regular[OF reg1] have st: "stat w target = Some (RegularFile c)" .
  then have et: "path_exists w target" and ft: "is_file w target"
    by (simp_all add: path_exists_def is_file_def)
  from reg1 have pt: "parts target \<noteq> []" and fl: "files w target = Some (RegularFile c)"
    by (auto simp: lstat_def split: if_splits)
  show ?thesis
  proof (cases "path_exists w store")
    case True
    with et show ?thesis
      by (simp add: Let_def target_def[symmetric] store_def[symmetric])
  next
    case False
    then have ss: "stat w store = None" by (simp add: path_exists_def)
    with st have ne: "target \<noteq> store" by auto
    from ss stat_directory[OF dir'] have np: "parent target \<noteq> store" by auto
    from pt have npt: "parent target \<noteq> target"
      by (cases target) (auto simp: parent_def butlast_neq)
    define w1 where "w1 = move target store w"
    have l1: "lstat w1 target = None"
      using pt ne by (simp add: w1_def move_def lstat_def)
    have d1: "lstat w1 (parent target) = Some Directory"
      using dir' np npt by (auto simp: w1_def move_def lstat_def)
    from stat_missing[OF l1] have ne1: "\<not> path_exists w1 target" by (simp add: path_exists_def)
    from stat_directory[OF d1] have "is_dir w1 (parent target)" by (simp add: is_dir_def)
    then have mk: "mkdir_parents (parent target) w1 = (None, w1)" by (rule mkdir_parents_is_dir)
    have cms: "create_model_symlink (MODEL_DIR env) (sha256 m) workspace (filename m) w1 =
       (None, put target (Some (SymLink store)) (OpSymlink store target) w1)"
      using ne1 mk l1
      by (simp add: create_model_symlink_def Let_def target_def[symmetric] store_def[symmetric] symlink_def)
    have fin: "put target (Some (SymLink store)) (OpSymlink store target) w1 =
       w\<lparr>files := (files w)(store \<mapsto> RegularFile c, target \<mapsto> SymLink store),
         oplog := oplog w @ [OpRename target store, OpSymlink store target]\<rparr>"
      using ne fl by (auto simp: put_def w1_def move_def fun_eq_iff)
    from False et ft cms fin show ?thesis
      by (simp add: Let_def target_def[symmetric] store_def[symmetric] w1_def[symmetric])
  qed
qed

theorem retrive_loop_regular_file_witness:
  "lstat unlinked_world (joinpath example_workspace (filename example_model)) =
     Some (RegularFile ''junk'') \<and>
   lstat unlinked_world (parent (joinpath example_workspace (filename example_model))) =
     Some Directory \<and>
   \<not> path_exists unlinked_world (joinpath (MODEL_DIR example_env) (sha256 example_model)) \<and>
   retrive_loop example_env example_workspace False [example_model] [] unlinked_world =
     (None,
      unlinked_world\<lparr>files := (files unlinked_world)
          (joinpath (MODEL_DIR example_env) (sha256 example_model) \<mapsto> RegularFile ''junk'',
           joinpath example_workspace (filename example_model) \<mapsto>
             SymLink (joinpath (MODEL_DIR example_env) (sha256 example_model))),
        oplog := oplog unlinked_world @
          [OpRename (joinpath example_workspace (filename example_model))
             (joinpath (MODEL_DIR example_env) (sha256 example_model)),
           OpSymlink (joinpath (MODEL_DIR example_env) (sha256 example_model))
             (joinpath example_workspace (filename example_model))]\<rparr>,
      [])"
proof -
  have a: "lstat unlinked_world (joinpath example_workspace (filename example_model)) =
     Some (RegularFile ''junk'')"
    by code_simp
  have b: "lstat unlinked_world (parent (joinpath example_workspace (filename example_model))) =
     Some Directory"
    by code_simp
  have c: "\<not> path_exists unlinked_world (joinpath (MODEL_DIR example_env) (sha256 example_model))"
    by code_simp
  from retrive_loop_regular_file [OF a b, of example_env False "[]" "[]"] a b c show ?thesis
    by simp
qed

end
